theory Spec2Isabelle
  imports Complex_Main
begin

section \<open>Measurement annotations of the editing client\<close>

text \<open>
  A shallow embedding of \<^verbatim>\<open>MeasurementPlateObject.ts\<close> and of the mode and
  synchronisation logic of \<^verbatim>\<open>MeasureMenuController.ts\<close>.

  Conventions of the embedding:
  \<^item> a JavaScript \<^verbatim>\<open>number\<close> that holds an id is an \<^typ>\<open>int\<close>; one that holds a
    coordinate or a distance is a \<^typ>\<open>real\<close> (rounding of doubles is not modelled);
  \<^item> \<^verbatim>\<open>T | null\<close> is \<^typ>\<open>'a option\<close>;
  \<^item> objects of class \<^verbatim>\<open>MeasurementPlateObject\<close> live in a store, and the two
    \<^verbatim>\<open>Map<number, MeasurementPlateObject>\<close> of the controller hold references into
    it, because the controller keeps the same object in both maps and mutates it
    through either;
  \<^item> Babylon.js meshes are reduced to what the controller reads or writes of them:
    their colour and rendering group; \<^verbatim>\<open>dispose()\<close> has no effect on the model;
  \<^item> \<^verbatim>\<open>console.warn\<close> and \<^verbatim>\<open>console.error\<close> append to the field \<open>console\<close>;
    the informational \<^verbatim>\<open>console.log\<close> is not recorded;
  \<^item> every call of \<^verbatim>\<open>SocketHandler.SendData\<close> appends to the field \<open>SendData_calls\<close>;
  \<^item> the key pressed, the pointer event and the result of \<^verbatim>\<open>scene.pick\<close> are
    arguments of the handlers.

  The construction of the menu in \<^verbatim>\<open>Init\<close> and the two methods that empty one map
  each when a session is left (\<^verbatim>\<open>ClearMeasurementData\<close>, \<^verbatim>\<open>ClearGUIObjects\<close>)
  are not part of the embedding.
\<close>

subsection \<open>Vectors\<close>

datatype Vector3 = Vector3 (vx: real) (vy: real) (vz: real)

text \<open>
  \<^verbatim>\<open>Vector3.Distance\<close> of Babylon.js: the square root of the sum of the squared
  differences of the components.
\<close>

definition Vector3_Distance :: "Vector3 \<Rightarrow> Vector3 \<Rightarrow> real" where
  "Vector3_Distance a b =
     sqrt ((vx a - vx b)\<^sup>2 + (vy a - vy b)\<^sup>2 + (vz a - vz b)\<^sup>2)"

subsection \<open>Values of the configuration and of the engine\<close>

text \<open>
  The colours are the entries of \<^verbatim>\<open>MeasurementConfig\<close> the code passes to
  \<^verbatim>\<open>Color3.FromHexString\<close>, and the rendering groups the entries of
  \<^verbatim>\<open>RenderConfig\<close>; both are named here by the entry read (\<open>group_default\<close> is
  the group of a mesh whose group was never assigned). No statement below depends on
  two entries being different.
\<close>

datatype Color = colors_default | colors_delete | colors_hover | colors_point_default

datatype RenderGroup = group_default | worldSpace | highlights

datatype PointType = start | end_point

datatype ActionStates = None_state | Add | Remove

datatype js_error = TypeError

record Mesh =
  color :: "Color option"
  renderingGroupId :: RenderGroup

subsection \<open>MeasurementPlateObject\<close>

record MeasurementPlateObject =
  measurement_instance_id :: int
  startPoint :: Vector3
  endPoint :: Vector3
  distanceMeasured :: real
  line :: "Mesh option"
  textMesh :: "Mesh option"
  startPointCollider :: "Mesh option"
  endPointCollider :: "Mesh option"

text \<open>The constructor stores its four arguments; no visual exists yet.\<close>

definition new_MeasurementPlateObject ::
    "int \<Rightarrow> Vector3 \<Rightarrow> Vector3 \<Rightarrow> real \<Rightarrow> MeasurementPlateObject" where
  "new_MeasurementPlateObject i sp ep d =
     \<lparr>measurement_instance_id = i, startPoint = sp, endPoint = ep, distanceMeasured = d,
      line = None, textMesh = None, startPointCollider = None, endPointCollider = None\<rparr>"

definition Create3DText :: Mesh where
  "Create3DText = \<lparr>color = None, renderingGroupId = highlights\<rparr>"

definition CreatePlate :: "MeasurementPlateObject \<Rightarrow> MeasurementPlateObject" where
  "CreatePlate p =
     p\<lparr>line := Some \<lparr>color = None, renderingGroupId = worldSpace\<rparr>,
       textMesh := Some Create3DText\<rparr>"

definition CreateStartSphere :: "MeasurementPlateObject \<Rightarrow> MeasurementPlateObject" where
  "CreateStartSphere p =
     p\<lparr>startPointCollider :=
         Some \<lparr>color = Some colors_point_default, renderingGroupId = worldSpace\<rparr>\<rparr>"

definition CreateEndSphere :: "MeasurementPlateObject \<Rightarrow> MeasurementPlateObject" where
  "CreateEndSphere p =
     p\<lparr>endPointCollider :=
         Some \<lparr>color = Some colors_point_default, renderingGroupId = worldSpace\<rparr>\<rparr>"

definition InitPlate :: "MeasurementPlateObject \<Rightarrow> MeasurementPlateObject" where
  "InitPlate p = CreateEndSphere (CreateStartSphere (CreatePlate p))"

definition UpdateMeasurement ::
    "Vector3 \<Rightarrow> Vector3 \<Rightarrow> MeasurementPlateObject \<Rightarrow> MeasurementPlateObject" where
  "UpdateMeasurement sp ep p =
     CreateEndSphere (CreateStartSphere (CreatePlate
       (p\<lparr>startPoint := sp, endPoint := ep, distanceMeasured := Vector3_Distance sp ep\<rparr>)))"

definition set_color :: "Color \<Rightarrow> Mesh \<Rightarrow> Mesh" where
  "set_color c m = m\<lparr>color := Some c\<rparr>"

definition SetColor :: "Color \<Rightarrow> MeasurementPlateObject \<Rightarrow> MeasurementPlateObject" where
  "SetColor c p =
     p\<lparr>line := map_option (set_color c) (line p),
       startPointCollider := map_option (set_color c) (startPointCollider p),
       endPointCollider := map_option (set_color c) (endPointCollider p)\<rparr>"

definition SetPointColor ::
    "PointType \<Rightarrow> Color \<Rightarrow> MeasurementPlateObject \<Rightarrow> MeasurementPlateObject" where
  "SetPointColor t c p =
     (if t = start
      then p\<lparr>startPointCollider := map_option (set_color c) (startPointCollider p)\<rparr>
      else p\<lparr>endPointCollider := map_option (set_color c) (endPointCollider p)\<rparr>)"

definition set_group :: "RenderGroup \<Rightarrow> Mesh \<Rightarrow> Mesh" where
  "set_group g m = m\<lparr>renderingGroupId := g\<rparr>"

definition SetRenderingGroup ::
    "RenderGroup \<Rightarrow> MeasurementPlateObject \<Rightarrow> MeasurementPlateObject" where
  "SetRenderingGroup g p =
     p\<lparr>line := map_option (set_group g) (line p),
       startPointCollider := map_option (set_group g) (startPointCollider p),
       endPointCollider := map_option (set_group g) (endPointCollider p)\<rparr>"

definition ClearGUI :: "MeasurementPlateObject \<Rightarrow> MeasurementPlateObject" where
  "ClearGUI p =
     p\<lparr>line := None, textMesh := None, startPointCollider := None, endPointCollider := None\<rparr>"

subsection \<open>Messages of the relay server\<close>

text \<open>
  A point of a payload is declared a \<^verbatim>\<open>Vector3\<close>, but arrives as parsed JSON. The
  handlers test \<^verbatim>\<open>instanceof Vector3\<close> and otherwise read the fields \<^verbatim>\<open>_x\<close>,
  \<^verbatim>\<open>x\<close>, \<^verbatim>\<open>_y\<close>, \<^verbatim>\<open>y\<close>, \<^verbatim>\<open>_z\<close>, \<^verbatim>\<open>z\<close>, each a number or
  \<^verbatim>\<open>undefined\<close> (\<open>None\<close>). Reading a field of \<^verbatim>\<open>null\<close> or \<^verbatim>\<open>undefined\<close>
  raises a \<^verbatim>\<open>TypeError\<close>.
\<close>

datatype WirePoint =
    IsVector3 Vector3
  | JsonPoint (f_x: "real option") (fx: "real option")
              (f_y: "real option") (fy: "real option")
              (f_z: "real option") (fz: "real option")
  | Nullish

definition component :: "real option \<Rightarrow> real option \<Rightarrow> real" where
  "component u v = (case u of Some a \<Rightarrow> a | None \<Rightarrow> (case v of Some b \<Rightarrow> b | None \<Rightarrow> 0))"

fun decode_point :: "WirePoint \<Rightarrow> js_error + Vector3" where
  "decode_point (IsVector3 v) = Inr v"
| "decode_point (JsonPoint ux x uy y uz z) =
     Inr (Vector3 (component ux x) (component uy y) (component uz z))"
| "decode_point Nullish = Inl TypeError"

record MeasurementMessage =
  msg_instance_id :: int
  msg_startPoint :: WirePoint
  msg_endPoint :: WirePoint
  msg_distanceMeasured :: real

text \<open>
  The create broadcast is declared \<^verbatim>\<open>any[]\<close>. The handler tests
  \<^verbatim>\<open>Array.isArray\<close> on the argument and the truthiness of each entry and of its
  \<^verbatim>\<open>measurement_instance_id\<close>, which is a number, \<^verbatim>\<open>NaN\<close>, \<^verbatim>\<open>null\<close> or
  missing.
\<close>

datatype WireId = IdMissing | IdNull | IdNaN | IdNumber int

fun truthy_id :: "WireId \<Rightarrow> bool" where
  "truthy_id (IdNumber n) = (n \<noteq> 0)"
| "truthy_id _ = False"

datatype WireEntry =
    FalsyEntry
  | ObjectEntry (entry_id: WireId) (entry_startPoint: WirePoint)
                (entry_endPoint: WirePoint) (entry_distanceMeasured: real)

datatype WireBatch = NotAnArray | ArrayOf "WireEntry list"

datatype Request =
    CreateMeasurementObject int Vector3 Vector3 real
  | UpdateMeasurementObject int Vector3 Vector3 real
  | DeleteMeasurementObject int

datatype Console = ConsoleWarn string | ConsoleError string

subsection \<open>Input events\<close>

text \<open>
  \<^verbatim>\<open>scene.pick\<close> is the picking service: its result is an input of the pointer
  handlers. \<open>metadata\<close> is \<open>None\<close> when no mesh was picked or the mesh has no
  metadata; a field of the metadata is \<open>None\<close> when it is \<^verbatim>\<open>undefined\<close>.
\<close>

record Metadata =
  measurementPlate :: "nat option"
  pointType :: "PointType option"
  measurementId :: "int option"

record PickingInfo =
  hit :: bool
  pickedPoint :: "Vector3 option"
  metadata :: "Metadata option"

record PointerEvent =
  pointerType :: string
  button :: int

subsection \<open>MeasureMenuController\<close>

text \<open>
  The fields of the class, under their names. The controller's own \<^verbatim>\<open>startPoint\<close>
  is \<open>startPoint_tool\<close> (the plate object has a field of that name); \<open>instance_set\<close>
  says that the static \<^verbatim>\<open>MeasureMenuController.instance\<close> is not null and
  \<open>scene_set\<close> that \<^verbatim>\<open>scene\<close> is assigned; the two observers are \<open>True\<close> when
  registered. \<open>keydownListeners\<close> is not a field of the class: it counts the
  \<^verbatim>\<open>keydown\<close> listeners the controller has on \<^verbatim>\<open>window\<close>. \<open>objects\<close> is the
  store of plate objects and \<open>nextObject\<close> the next unused reference.
  \<open>SendData_throws\<close> says whether the transport raises on send.
\<close>

record MeasureMenuController =
  instance_set :: bool
  scene_set :: bool
  measurementsList :: "int \<rightharpoonup> nat"
  plateObjects :: "int \<rightharpoonup> nat"
  objects :: "nat \<Rightarrow> MeasurementPlateObject"
  nextObject :: nat
  currentActionState :: ActionStates
  startPoint_tool :: "Vector3 option"
  currentLine :: "Mesh option"
  isDraggingMeasurement :: bool
  lastValidPickedPoint :: "Vector3 option"
  pointerObserver :: bool
  beforeRenderObserver :: bool
  keydownListeners :: nat
  dynamicTextMesh :: "Mesh option"
  isMovingPoint :: bool
  selectedMeasurementId :: int
  selectedPointType :: "PointType option"
  selectedPlateObject :: "nat option"
  fixedPoint :: "Vector3 option"
  movePreviewLine :: "Mesh option"
  movePreviewText :: "Mesh option"
  hoveredMeasurementId :: int
  hoveredPointType :: "PointType option"
  console :: "Console list"
  SendData_calls :: "Request list"
  SendData_throws :: bool

text \<open>
  The controller after its constructor and \<^verbatim>\<open>Init\<close>, with a working transport;
  the measuring tool has not been enabled yet.
\<close>

definition new_MeasureMenuController :: MeasureMenuController where
  "new_MeasureMenuController =
     \<lparr>instance_set = True, scene_set = True,
      measurementsList = Map.empty, plateObjects = Map.empty,
      objects = (\<lambda>_. new_MeasurementPlateObject (-1) (Vector3 0 0 0) (Vector3 0 0 0) 0),
      nextObject = 0,
      currentActionState = None_state,
      startPoint_tool = None, currentLine = None,
      isDraggingMeasurement = False, lastValidPickedPoint = None,
      pointerObserver = False, beforeRenderObserver = False, keydownListeners = 0,
      dynamicTextMesh = None,
      isMovingPoint = False, selectedMeasurementId = -1,
      selectedPointType = None, selectedPlateObject = None,
      fixedPoint = None, movePreviewLine = None, movePreviewText = None,
      hoveredMeasurementId = -1, hoveredPointType = None,
      console = [], SendData_calls = [], SendData_throws = False\<rparr>"

definition console_warn :: "string \<Rightarrow> MeasureMenuController \<Rightarrow> MeasureMenuController" where
  "console_warn m s = s\<lparr>console := console s @ [ConsoleWarn m]\<rparr>"

definition console_error :: "string \<Rightarrow> MeasureMenuController \<Rightarrow> MeasureMenuController" where
  "console_error m s = s\<lparr>console := console s @ [ConsoleError m]\<rparr>"

text \<open>A method call on the plate object behind a reference.\<close>

definition on_object ::
    "nat \<Rightarrow> (MeasurementPlateObject \<Rightarrow> MeasurementPlateObject) \<Rightarrow>
     MeasureMenuController \<Rightarrow> MeasureMenuController" where
  "on_object r f s = s\<lparr>objects := (objects s)(r := f (objects s r))\<rparr>"

text \<open>
  \<^verbatim>\<open>SocketHandler.SendData\<close> inside \<^verbatim>\<open>try\<close>: the call is made; when the
  transport raises, the \<^verbatim>\<open>catch\<close> logs the error under the message given.
\<close>

definition SendData :: "Request \<Rightarrow> string \<Rightarrow> MeasureMenuController \<Rightarrow> MeasureMenuController" where
  "SendData req m s =
     (let s1 = s\<lparr>SendData_calls := SendData_calls s @ [req]\<rparr>
      in if SendData_throws s1 then console_error m s1 else s1)"

definition SetMeasurementColor ::
    "int \<Rightarrow> Color \<Rightarrow> MeasureMenuController \<Rightarrow> MeasureMenuController" where
  "SetMeasurementColor measurementId_arg c s =
     (case plateObjects s measurementId_arg of
        None \<Rightarrow> s
      | Some r \<Rightarrow>
          on_object r (\<lambda>p.
            p\<lparr>line := map_option (set_color c) (line p),
              startPointCollider := map_option (set_color c) (startPointCollider p),
              endPointCollider := map_option (set_color c) (endPointCollider p)\<rparr>) s)"

text \<open>
  \<^verbatim>\<open>UpdateActionButtonStates\<close> only restyles the two buttons and is left out.
\<close>

definition SetActionState :: "ActionStates \<Rightarrow> MeasureMenuController \<Rightarrow> MeasureMenuController" where
  "SetActionState st s =
     (let s1 = s\<lparr>currentActionState := st\<rparr>
      in if currentActionState s1 \<noteq> Remove \<and> hoveredMeasurementId s1 \<noteq> -1
         then (SetMeasurementColor (hoveredMeasurementId s1) colors_default s1)
                \<lparr>hoveredMeasurementId := -1\<rparr>
         else s1)"

definition ToggleDeleteMode :: "MeasureMenuController \<Rightarrow> MeasureMenuController" where
  "ToggleDeleteMode s =
     SetActionState (if currentActionState s = Remove then None_state else Remove) s"

definition ToggleCreateMode :: "MeasureMenuController \<Rightarrow> MeasureMenuController" where
  "ToggleCreateMode s =
     SetActionState (if currentActionState s = Add then None_state else Add) s"

definition SendDeleteMeasurementRequestToServer ::
    "int \<Rightarrow> MeasureMenuController \<Rightarrow> MeasureMenuController" where
  "SendDeleteMeasurementRequestToServer i s =
     SendData (DeleteMeasurementObject i) ''Error sending measurement deletion to server:'' s"

definition DeleteMeasurement :: "int \<Rightarrow> MeasureMenuController \<Rightarrow> MeasureMenuController" where
  "DeleteMeasurement i s =
     (if i = -1 then console_warn ''No measurement to delete'' s
      else SendDeleteMeasurementRequestToServer i s)"

definition ClearMovePreview :: "MeasureMenuController \<Rightarrow> MeasureMenuController" where
  "ClearMovePreview s = s\<lparr>movePreviewLine := None, movePreviewText := None\<rparr>"

definition ReceiveDeleteMeasurementRequestFromServer ::
    "int \<Rightarrow> MeasureMenuController \<Rightarrow> MeasureMenuController" where
  "ReceiveDeleteMeasurementRequestFromServer i s =
     (case plateObjects s i of
        None \<Rightarrow> console_warn ''Received delete request for unknown measurement'' s
      | Some r \<Rightarrow>
          (let s1 = on_object r ClearGUI s;
               s2 = s1\<lparr>plateObjects := (plateObjects s1)(i := None)\<rparr>;
               s3 = s2\<lparr>measurementsList := (measurementsList s2)(i := None)\<rparr>
           in if selectedMeasurementId s3 = i
              then (ClearMovePreview s3)
                     \<lparr>isMovingPoint := False, selectedPlateObject := None,
                      selectedPointType := None, selectedMeasurementId := -1,
                      fixedPoint := None\<rparr>
              else s3))"

definition DisableMeasuring :: "MeasureMenuController \<Rightarrow> MeasureMenuController" where
  "DisableMeasuring s =
     (if \<not> scene_set s then s
      else
        (let s1 = s\<lparr>pointerObserver := False, beforeRenderObserver := False\<rparr>;
             s2 = (if currentActionState s1 \<noteq> None_state
                   then SetActionState None_state s1 else s1)
         in s2\<lparr>startPoint_tool := None, isDraggingMeasurement := False,
               currentLine := None, dynamicTextMesh := None\<rparr>))"

text \<open>
  The \<^verbatim>\<open>keydown\<close> listener of \<^verbatim>\<open>EnableMeasuring\<close>, given \<^verbatim>\<open>event.key\<close>. Its two
  \<^verbatim>\<open>if\<close> statements run one after the other.
\<close>

definition onKeyDown :: "string \<Rightarrow> MeasureMenuController \<Rightarrow> MeasureMenuController" where
  "onKeyDown key s =
     (let s1 = (if key = ''Escape''
                then (if currentActionState s \<noteq> None_state
                      then SetActionState None_state s
                      else DisableMeasuring s)
                else s)
      in if key = ''x'' \<or> key = ''X''
         then (if isMovingPoint s1 \<and> selectedMeasurementId s1 \<noteq> -1
               then (let s2 = (ClearMovePreview s1)
                                \<lparr>isMovingPoint := False, selectedPlateObject := None,
                                 selectedPointType := None, fixedPoint := None\<rparr>;
                         s3 = DeleteMeasurement (selectedMeasurementId s2) s2
                     in s3\<lparr>selectedMeasurementId := -1\<rparr>)
               else ToggleDeleteMode s1)
         else s1)"

text \<open>
  \<^verbatim>\<open>EnableMeasuring\<close> builds the listener above and adds it to \<^verbatim>\<open>window\<close>, on
  every call; the listener is removed when the scene is disposed and nowhere else,
  \<^verbatim>\<open>DisableMeasuring\<close> removes only the two observers of the scene. The two fields
  take the new observers: after a second call with no \<^verbatim>\<open>DisableMeasuring\<close> between
  them the earlier observers would stay on the scene, which holds lists the model does
  not have; a pointer handler below is one run of one observer.
\<close>

definition EnableMeasuring :: "MeasureMenuController \<Rightarrow> MeasureMenuController" where
  "EnableMeasuring s =
     (if \<not> scene_set s then s
      else s\<lparr>keydownListeners := Suc (keydownListeners s),
             pointerObserver := True, beforeRenderObserver := True\<rparr>)"

text \<open>
  A key press: \<^verbatim>\<open>window\<close> runs every listener registered, one after the other,
  each on the state the one before it left. The listeners differ in nothing but their
  identity, and none of them adds or removes a listener.
\<close>

definition keydown :: "string \<Rightarrow> MeasureMenuController \<Rightarrow> MeasureMenuController" where
  "keydown key s = (onKeyDown key ^^ keydownListeners s) s"

text \<open>
  The callbacks that \<^verbatim>\<open>EnableMeasuring\<close> hands to \<^verbatim>\<open>onDisposeObservable.addOnce\<close>:
  when the scene is disposed each removes its listener.
\<close>

definition onSceneDispose :: "MeasureMenuController \<Rightarrow> MeasureMenuController" where
  "onSceneDispose s = s\<lparr>keydownListeners := 0\<rparr>"

subsubsection \<open>Moving a point\<close>

definition StartMovingPoint ::
    "nat \<Rightarrow> PointType \<Rightarrow> int \<Rightarrow> MeasureMenuController \<Rightarrow> MeasureMenuController" where
  "StartMovingPoint plateObject t i s =
     (let s1 = s\<lparr>isMovingPoint := True, selectedPlateObject := Some plateObject,
                 selectedPointType := Some t, selectedMeasurementId := i\<rparr>;
          currentStart = startPoint (objects s1 plateObject);
          currentEnd = endPoint (objects s1 plateObject);
          s2 = s1\<lparr>fixedPoint := Some (if t = start then currentEnd else currentStart)\<rparr>;
          s3 = on_object plateObject (SetColor colors_hover) s2
      in on_object plateObject ClearGUI s3)"

text \<open>
  \<^verbatim>\<open>CreateMeasurementText\<close> builds a temporary plate object with id \<open>-1\<close> only
  to call \<^verbatim>\<open>Create3DText\<close> on it; the object is stored nowhere and is not
  allocated in the model.
\<close>

definition UpdateMovePreview :: "Vector3 \<Rightarrow> MeasureMenuController \<Rightarrow> MeasureMenuController" where
  "UpdateMovePreview newPosition s =
     (if fixedPoint s = None then s
      else (ClearMovePreview s)
             \<lparr>movePreviewLine := Some \<lparr>color = Some colors_hover, renderingGroupId = worldSpace\<rparr>,
              movePreviewText := Some Create3DText\<rparr>)"

definition SendUpdateMeasurementRequestToServer ::
    "int \<Rightarrow> Vector3 \<Rightarrow> Vector3 \<Rightarrow> real \<Rightarrow> MeasureMenuController \<Rightarrow> MeasureMenuController" where
  "SendUpdateMeasurementRequestToServer i sp ep d s =
     SendData (UpdateMeasurementObject i sp ep d)
       ''Error sending measurement update to server:'' s"

text \<open>
  The assignments to the colliders' \<^verbatim>\<open>metadata.measurementId\<close> write the id the
  metadata already holds; the metadata is what a pick returns, an input here.
\<close>

definition UpdateExistingMeasurement ::
    "int \<Rightarrow> Vector3 \<Rightarrow> Vector3 \<Rightarrow> MeasureMenuController \<Rightarrow> MeasureMenuController" where
  "UpdateExistingMeasurement i newStartPoint newEndPoint s =
     (case (plateObjects s i, measurementsList s i) of
        (Some plateObject, Some measurementData) \<Rightarrow>
          (let distance = Vector3_Distance newStartPoint newEndPoint;
               s1 = on_object measurementData
                      (\<lambda>p. p\<lparr>startPoint := newStartPoint, endPoint := newEndPoint,
                              distanceMeasured := distance\<rparr>) s;
               s2 = on_object plateObject (UpdateMeasurement newStartPoint newEndPoint) s1
           in SendUpdateMeasurementRequestToServer i newStartPoint newEndPoint distance s2)
      | _ \<Rightarrow> console_error ''Measurement not found'' s)"

definition CompleteMove :: "Vector3 \<Rightarrow> MeasureMenuController \<Rightarrow> MeasureMenuController" where
  "CompleteMove finalPosition s =
     (case (selectedPlateObject s, selectedPointType s, fixedPoint s) of
        (Some _, Some t, Some fixed) \<Rightarrow>
          (let newStartPoint = (if t = start then finalPosition else fixed);
               newEndPoint = (if t = start then fixed else finalPosition);
               s1 = UpdateExistingMeasurement (selectedMeasurementId s)
                      newStartPoint newEndPoint s;
               s2 = ClearMovePreview s1
           in s2\<lparr>isMovingPoint := False, selectedPlateObject := None,
                 selectedPointType := None, selectedMeasurementId := -1,
                 fixedPoint := None\<rparr>)
      | _ \<Rightarrow> s)"

definition CancelMoveOperation :: "MeasureMenuController \<Rightarrow> MeasureMenuController" where
  "CancelMoveOperation s =
     (case selectedPlateObject s of
        None \<Rightarrow> s
      | Some r \<Rightarrow>
          (let s1 = on_object r InitPlate s;
               s2 = ClearMovePreview s1
           in s2\<lparr>isMovingPoint := False, selectedPlateObject := None,
                 selectedPointType := None, selectedMeasurementId := -1,
                 fixedPoint := None\<rparr>))"

subsubsection \<open>Creating a measurement\<close>

definition CancelMeasurementCreation :: "MeasureMenuController \<Rightarrow> MeasureMenuController" where
  "CancelMeasurementCreation s =
     s\<lparr>currentLine := None, dynamicTextMesh := None, startPoint_tool := None\<rparr>"

definition StartNewMeasurement :: "Vector3 \<Rightarrow> MeasureMenuController \<Rightarrow> MeasureMenuController" where
  "StartNewMeasurement picked s =
     s\<lparr>startPoint_tool := Some picked,
       currentLine := Some \<lparr>color = None, renderingGroupId = worldSpace\<rparr>\<rparr>"

definition SendCreateNewMeasurementRequestToServer ::
    "int \<Rightarrow> Vector3 \<Rightarrow> Vector3 \<Rightarrow> real \<Rightarrow> MeasureMenuController \<Rightarrow> MeasureMenuController" where
  "SendCreateNewMeasurementRequestToServer i sp ep d s =
     SendData (CreateMeasurementObject i sp ep d) ''Error sending measurement to server:'' s"

text \<open>
  \<^verbatim>\<open>CompleteMeasurement\<close> passes \<^verbatim>\<open>this.startPoint\<close> to \<^verbatim>\<open>Vector3.Distance\<close>, which
  reads its components: a \<^verbatim>\<open>TypeError\<close> when it is null.
\<close>

definition CompleteMeasurement ::
    "Vector3 \<Rightarrow> MeasureMenuController \<Rightarrow> js_error + MeasureMenuController" where
  "CompleteMeasurement endPoint_arg s =
     (case startPoint_tool s of
        None \<Rightarrow> Inl TypeError
      | Some sp \<Rightarrow>
          (let distance = Vector3_Distance sp endPoint_arg;
               measurementId_local = -1;
               s1 = SendCreateNewMeasurementRequestToServer measurementId_local sp
                      endPoint_arg distance s;
               s2 = s1\<lparr>selectedMeasurementId := measurementId_local\<rparr>
           in Inr (s2\<lparr>dynamicTextMesh := None, startPoint_tool := None,
                       currentLine := None\<rparr>)))"

definition UpdateMeasuringDisplay :: "Vector3 \<Rightarrow> MeasureMenuController \<Rightarrow> MeasureMenuController" where
  "UpdateMeasuringDisplay picked s =
     (if startPoint_tool s = None then s
      else s\<lparr>currentLine :=
                Some (case currentLine s of
                        Some l \<Rightarrow> l
                      | None \<Rightarrow> \<lparr>color = None, renderingGroupId = group_default\<rparr>),
              dynamicTextMesh := Some Create3DText\<rparr>)"

subsubsection \<open>Pointer handlers\<close>

text \<open>
  \<^verbatim>\<open>metadata.measurementPlate && metadata.pointType && metadata.measurementId\<close>:
  the three fields are present and the id is not \<open>0\<close>.
\<close>

definition endpoint_pick :: "PickingInfo \<Rightarrow> (nat \<times> PointType \<times> int) option" where
  "endpoint_pick pick =
     (case metadata pick of
        None \<Rightarrow> None
      | Some m \<Rightarrow>
          (case (measurementPlate m, pointType m, measurementId m) of
             (Some r, Some t, Some i) \<Rightarrow> (if i \<noteq> 0 then Some (r, t, i) else None)
           | _ \<Rightarrow> None))"

text \<open>
  \<^verbatim>\<open>(pickResult.hit && pickResult.pickedPoint) ? pickResult.pickedPoint
  : this.lastValidPickedPoint\<close>
\<close>

definition pointToUse :: "PickingInfo \<Rightarrow> MeasureMenuController \<Rightarrow> Vector3 option" where
  "pointToUse pick s =
     (if hit pick \<and> pickedPoint pick \<noteq> None then pickedPoint pick
      else lastValidPickedPoint s)"

definition HandlePointerDown ::
    "PointerEvent \<Rightarrow> PickingInfo \<Rightarrow> MeasureMenuController \<Rightarrow> MeasureMenuController" where
  "HandlePointerDown ev pick s =
     (if \<not> scene_set s then s
      else if pointerType ev = ''mouse'' \<and> button ev \<noteq> 0 then s
      else
        (case (if hit pick then pickedPoint pick else None) of
           None \<Rightarrow> s
         | Some picked \<Rightarrow>
             if currentActionState s = Remove \<and> hoveredMeasurementId s \<noteq> -1
             then DeleteMeasurement (hoveredMeasurementId s) s
             else if currentActionState s = Remove then s
             else
               (case endpoint_pick pick of
                  Some (r, t, i) \<Rightarrow> StartMovingPoint r t i s
                | None \<Rightarrow>
                    if currentActionState s = Add \<and> \<not> isDraggingMeasurement s
                         \<and> \<not> isMovingPoint s
                    then (StartNewMeasurement picked s)\<lparr>isDraggingMeasurement := True\<rparr>
                    else s)))"

definition HandlePointerUp ::
    "PointerEvent \<Rightarrow> PickingInfo \<Rightarrow> MeasureMenuController \<Rightarrow>
     js_error + MeasureMenuController" where
  "HandlePointerUp ev pick s =
     (if \<not> scene_set s then Inr s
      else if pointerType ev = ''mouse'' \<and> button ev \<noteq> 0 then Inr s
      else if isMovingPoint s \<and> selectedPlateObject s \<noteq> None \<and> selectedPointType s \<noteq> None
      then (case pointToUse pick s of
              Some p \<Rightarrow> Inr (CompleteMove p s)
            | None \<Rightarrow> Inr (CancelMoveOperation s))
      else if isDraggingMeasurement s \<and> startPoint_tool s \<noteq> None
      then (case pointToUse pick s of
              Some p \<Rightarrow>
                (case CompleteMeasurement p s of
                   Inl e \<Rightarrow> Inl e
                 | Inr s1 \<Rightarrow> Inr (s1\<lparr>isDraggingMeasurement := False\<rparr>))
            | None \<Rightarrow> Inr ((CancelMeasurementCreation s)\<lparr>isDraggingMeasurement := False\<rparr>))
      else Inr s)"

text \<open>The hover bookkeeping of delete mode: any picked mesh whose metadata has an id.\<close>

definition hover_delete_mode :: "PickingInfo \<Rightarrow> MeasureMenuController \<Rightarrow> MeasureMenuController" where
  "hover_delete_mode pick s =
     (let newHoveredId =
            (case (if hit pick then metadata pick else None) of
               None \<Rightarrow> -1
             | Some m \<Rightarrow> (case measurementId m of Some i \<Rightarrow> i | None \<Rightarrow> -1))
      in if newHoveredId \<noteq> hoveredMeasurementId s
         then
           (let s1 = (if hoveredMeasurementId s \<noteq> -1
                      then SetMeasurementColor (hoveredMeasurementId s) colors_default s
                      else s);
                s2 = (if newHoveredId \<noteq> -1
                      then SetMeasurementColor newHoveredId colors_delete s1
                      else s1)
            in s2\<lparr>hoveredMeasurementId := newHoveredId\<rparr>)
         else s)"

text \<open>The hover bookkeeping outside delete mode, run when nothing is dragged or moved.\<close>

definition hover_endpoint :: "PickingInfo \<Rightarrow> MeasureMenuController \<Rightarrow> MeasureMenuController" where
  "hover_endpoint pick s =
     (let new = (case (if hit pick then endpoint_pick pick else None) of
                   Some (r, t, i) \<Rightarrow> (i, Some t)
                 | None \<Rightarrow> (-1, None));
          newHoveredId = fst new;
          newHoveredPointType = snd new
      in if newHoveredId \<noteq> hoveredMeasurementId s \<or> newHoveredPointType \<noteq> hoveredPointType s
         then
           (let s1 =
                  (if hoveredMeasurementId s \<noteq> -1
                   then (case plateObjects s (hoveredMeasurementId s) of
                           None \<Rightarrow> s
                         | Some prev \<Rightarrow>
                             on_object prev (\<lambda>p.
                               let p1 = p\<lparr>line := map_option (set_color colors_default) (line p)\<rparr>;
                                   p2 = (case hoveredPointType s of
                                           Some t \<Rightarrow> SetPointColor t colors_point_default p1
                                         | None \<Rightarrow> p1)
                               in SetRenderingGroup worldSpace p2) s)
                   else s);
                s2 =
                  (case newHoveredPointType of
                     None \<Rightarrow> s1
                   | Some t \<Rightarrow>
                       if newHoveredId \<noteq> -1
                       then (case plateObjects s1 newHoveredId of
                               None \<Rightarrow> s1
                             | Some r \<Rightarrow>
                                 on_object r (\<lambda>p.
                                   let p1 = p\<lparr>line := map_option (set_color colors_hover) (line p)\<rparr>;
                                       p2 = SetPointColor t colors_hover p1
                                   in SetRenderingGroup highlights p2) s1)
                       else s1)
            in s2\<lparr>hoveredMeasurementId := newHoveredId,
                  hoveredPointType := newHoveredPointType\<rparr>)
         else s)"

definition HandlePointerMove :: "PickingInfo \<Rightarrow> MeasureMenuController \<Rightarrow> MeasureMenuController" where
  "HandlePointerMove pick s =
     (if \<not> scene_set s then s
      else if currentActionState s = Remove then hover_delete_mode pick s
      else
        (let s1 = (if \<not> isMovingPoint s \<and> \<not> isDraggingMeasurement s
                   then hover_endpoint pick s else s);
             s2 = (if hit pick \<and> pickedPoint pick \<noteq> None
                   then s1\<lparr>lastValidPickedPoint := pickedPoint pick\<rparr> else s1)
         in case pointToUse pick s2 of
              None \<Rightarrow> s2
            | Some p \<Rightarrow>
                if isMovingPoint s2 \<and> selectedPlateObject s2 \<noteq> None
                     \<and> selectedPointType s2 \<noteq> None
                then UpdateMovePreview p s2
                else if isDraggingMeasurement s2 \<and> startPoint_tool s2 \<noteq> None
                          \<and> currentLine s2 \<noteq> None
                then UpdateMeasuringDisplay p s2
                else s2))"

subsubsection \<open>Handlers of the server's broadcasts\<close>

text \<open>
  \<^verbatim>\<open>TryAddMeasurementObject\<close>: the decoding runs inside \<^verbatim>\<open>try\<close>, and the
  \<^verbatim>\<open>catch\<close> logs the error and adds nothing. The new plate object takes the next
  reference of the store; both maps receive that reference.
\<close>

definition TryAddMeasurementObject ::
    "MeasurementMessage \<Rightarrow> MeasureMenuController \<Rightarrow> MeasureMenuController" where
  "TryAddMeasurementObject jsonData s =
     (if \<not> instance_set s
      then console_error ''MeasureMenuController instance not initialized'' s
      else if measurementsList s (msg_instance_id jsonData) \<noteq> None then s
      else
        (case decode_point (msg_startPoint jsonData) of
           Inl e \<Rightarrow> console_error ''Error adding measurement object:'' s
         | Inr sp \<Rightarrow>
             (case decode_point (msg_endPoint jsonData) of
                Inl e \<Rightarrow> console_error ''Error adding measurement object:'' s
              | Inr ep \<Rightarrow>
                  (let distance = msg_distanceMeasured jsonData;
                       r = nextObject s;
                       newMeasurementPlate =
                         InitPlate (new_MeasurementPlateObject (msg_instance_id jsonData)
                                      sp ep distance);
                       s1 = s\<lparr>objects := (objects s)(r := newMeasurementPlate),
                               nextObject := Suc r\<rparr>;
                       s2 = s1\<lparr>measurementsList :=
                                 (measurementsList s1)(msg_instance_id jsonData \<mapsto> r)\<rparr>
                   in s2\<lparr>plateObjects :=
                           (plateObjects s2)(msg_instance_id jsonData \<mapsto> r)\<rparr>))))"

text \<open>One step of the \<^verbatim>\<open>forEach\<close> of the create handler.\<close>

fun receive_entry :: "WireEntry \<Rightarrow> MeasureMenuController \<Rightarrow> MeasureMenuController" where
  "receive_entry FalsyEntry s = console_warn ''Received invalid measurement data entry:'' s"
| "receive_entry (ObjectEntry wid sp ep d) s =
     (case wid of
        IdNumber n \<Rightarrow>
          if truthy_id wid
          then TryAddMeasurementObject
                 \<lparr>msg_instance_id = n, msg_startPoint = sp, msg_endPoint = ep,
                  msg_distanceMeasured = d\<rparr> s
          else console_warn ''Received invalid measurement data entry:'' s
      | _ \<Rightarrow> console_warn ''Received invalid measurement data entry:'' s)"

fun forEach :: "WireEntry list \<Rightarrow> MeasureMenuController \<Rightarrow> MeasureMenuController" where
  "forEach [] s = s"
| "forEach (e # es) s = forEach es (receive_entry e s)"

fun ReceiveCreateNewMeasurementRequestFromServer ::
    "WireBatch \<Rightarrow> MeasureMenuController \<Rightarrow> MeasureMenuController" where
  "ReceiveCreateNewMeasurementRequestFromServer NotAnArray s =
     console_error ''Received invalid measurement data format'' s"
| "ReceiveCreateNewMeasurementRequestFromServer (ArrayOf measureDataArray) s =
     forEach measureDataArray s"

text \<open>
  \<^verbatim>\<open>ReceiveUpdateMeasurementRequestFromServer\<close> decodes outside any \<^verbatim>\<open>try\<close>:
  a null point raises, before anything is written.
\<close>

definition ReceiveUpdateMeasurementRequestFromServer ::
    "MeasurementMessage \<Rightarrow> MeasureMenuController \<Rightarrow> js_error + MeasureMenuController" where
  "ReceiveUpdateMeasurementRequestFromServer updateData s =
     (case (plateObjects s (msg_instance_id updateData),
            measurementsList s (msg_instance_id updateData)) of
        (Some plateObject, Some measurementData) \<Rightarrow>
          (case decode_point (msg_startPoint updateData) of
             Inl e \<Rightarrow> Inl e
           | Inr sp \<Rightarrow>
               (case decode_point (msg_endPoint updateData) of
                  Inl e \<Rightarrow> Inl e
                | Inr ep \<Rightarrow>
                    (let s1 = on_object measurementData
                                (\<lambda>p. p\<lparr>startPoint := sp, endPoint := ep,
                                        distanceMeasured := msg_distanceMeasured updateData\<rparr>) s
                     in Inr (on_object plateObject (UpdateMeasurement sp ep) s1))))
      | _ \<Rightarrow> Inr (console_warn ''Received update for unknown measurement'' s))"

subsection \<open>The registry and some concrete inputs\<close>

text \<open>
  The registry of confirmed measurements: the two maps of the controller and the plate
  objects they refer to.
\<close>

definition registry ::
    "MeasureMenuController \<Rightarrow>
     (int \<rightharpoonup> nat) \<times> (int \<rightharpoonup> nat) \<times> (nat \<Rightarrow> MeasurementPlateObject)" where
  "registry s = (measurementsList s, plateObjects s, objects s)"

text \<open>
  A create broadcast for id \<open>3\<close> from \<open>(0, 0, 0)\<close> to \<open>(3, 4, 0)\<close>, its first point
  spelled with \<^verbatim>\<open>_x\<close>, \<^verbatim>\<open>_y\<close>, \<^verbatim>\<open>_z\<close> and its second with \<^verbatim>\<open>x\<close>, \<^verbatim>\<open>y\<close> and no
  \<^verbatim>\<open>z\<close>; the controller that has received it; a left mouse button; a pick of the
  start collider of that measurement and a pick of the scanned surface; and the
  controller after the pointer has come over the start collider and pressed it.
\<close>

definition msg3 :: MeasurementMessage where
  "msg3 = \<lparr>msg_instance_id = 3,
           msg_startPoint = JsonPoint (Some 0) None (Some 0) None (Some 0) None,
           msg_endPoint = JsonPoint None (Some 3) None (Some 4) None None,
           msg_distanceMeasured = 5\<rparr>"

definition with_entity3 :: MeasureMenuController where
  "with_entity3 = TryAddMeasurementObject msg3 new_MeasureMenuController"

definition left_button :: PointerEvent where
  "left_button = \<lparr>pointerType = ''mouse'', button = 0\<rparr>"

definition pick_start3 :: PickingInfo where
  "pick_start3 =
     \<lparr>hit = True, pickedPoint = Some (Vector3 0 0 0),
      metadata = Some \<lparr>measurementPlate = Some 0, pointType = Some start,
                       measurementId = Some 3\<rparr>\<rparr>"

definition pick_surface :: "Vector3 \<Rightarrow> PickingInfo" where
  "pick_surface p = \<lparr>hit = True, pickedPoint = Some p, metadata = None\<rparr>"

definition moving3 :: MeasureMenuController where
  "moving3 = HandlePointerDown left_button pick_start3
               (HandlePointerMove pick_start3 with_entity3)"

text \<open>
  The controller after the pointer has come over the start collider of the measurement
  \<open>3\<close>, and the controller in create mode after the pointer was pressed on the
  surface at \<open>(0, 0, 0)\<close>.
\<close>

definition hovering3 :: MeasureMenuController where
  "hovering3 = HandlePointerMove pick_start3 with_entity3"

definition dragging :: MeasureMenuController where
  "dragging = HandlePointerDown left_button (pick_surface (Vector3 0 0 0))
                (ToggleCreateMode new_MeasureMenuController)"

text \<open>
  The same two situations with the measuring tool enabled, once: a create-drag from
  \<open>(0, 0, 0)\<close>, and a move of the start point of the measurement \<open>3\<close>.
\<close>

definition drag_in_tool :: MeasureMenuController where
  "drag_in_tool = HandlePointerDown left_button (pick_surface (Vector3 0 0 0))
                    (ToggleCreateMode (EnableMeasuring new_MeasureMenuController))"

definition move_in_tool :: MeasureMenuController where
  "move_in_tool = HandlePointerDown left_button pick_start3
                    (HandlePointerMove pick_start3
                       (TryAddMeasurementObject msg3
                          (EnableMeasuring new_MeasureMenuController)))"

section \<open>Properties\<close>

subsection \<open>Auxiliary facts\<close>

lemmas plate_defs =
  InitPlate_def CreatePlate_def CreateStartSphere_def CreateEndSphere_def
  new_MeasurementPlateObject_def Create3DText_def UpdateMeasurement_def SetColor_def
  SetPointColor_def SetRenderingGroup_def ClearGUI_def set_color_def set_group_def

lemma sqrt_25: "sqrt 25 = 5"
  using real_sqrt_abs [of 5] by simp

lemma with_entity3_eq:
  "with_entity3 =
     new_MeasureMenuController
       \<lparr>measurementsList := [3 \<mapsto> 0], plateObjects := [3 \<mapsto> 0],
        objects := (objects new_MeasureMenuController)
          (0 := InitPlate (new_MeasurementPlateObject 3 (Vector3 0 0 0) (Vector3 3 4 0) 5)),
        nextObject := 1\<rparr>"
  by (simp add: with_entity3_def msg3_def new_MeasureMenuController_def component_def
        TryAddMeasurementObject_def)

lemma moving3_eq:
  "moving3 =
     with_entity3
       \<lparr>objects := (objects new_MeasureMenuController)
          (0 := new_MeasurementPlateObject 3 (Vector3 0 0 0) (Vector3 3 4 0) 5),
        lastValidPickedPoint := Some (Vector3 0 0 0),
        isMovingPoint := True, selectedMeasurementId := 3,
        selectedPointType := Some start, selectedPlateObject := Some 0,
        fixedPoint := Some (Vector3 3 4 0),
        hoveredMeasurementId := 3, hoveredPointType := Some start\<rparr>"
  by (simp add: with_entity3_eq moving3_def left_button_def pick_start3_def
        new_MeasureMenuController_def plate_defs
        HandlePointerDown_def HandlePointerMove_def hover_endpoint_def endpoint_pick_def
        pointToUse_def StartMovingPoint_def on_object_def UpdateMovePreview_def
        ClearMovePreview_def Let_def)

lemma hovering3_eq:
  "hovering3 =
     with_entity3
       \<lparr>objects := (objects new_MeasureMenuController)
          (0 := (InitPlate (new_MeasurementPlateObject 3 (Vector3 0 0 0) (Vector3 3 4 0) 5))
                  \<lparr>line := Some \<lparr>color = Some colors_hover, renderingGroupId = highlights\<rparr>,
                   startPointCollider :=
                     Some \<lparr>color = Some colors_hover, renderingGroupId = highlights\<rparr>,
                   endPointCollider :=
                     Some \<lparr>color = Some colors_point_default,
                           renderingGroupId = highlights\<rparr>\<rparr>),
        lastValidPickedPoint := Some (Vector3 0 0 0),
        hoveredMeasurementId := 3, hoveredPointType := Some start\<rparr>"
  by (simp add: with_entity3_eq hovering3_def pick_start3_def
        new_MeasureMenuController_def plate_defs
        HandlePointerMove_def hover_endpoint_def endpoint_pick_def
        pointToUse_def on_object_def Let_def)

lemma dragging_eq:
  "dragging =
     new_MeasureMenuController
       \<lparr>currentActionState := Add, startPoint_tool := Some (Vector3 0 0 0),
        currentLine := Some \<lparr>color = None, renderingGroupId = worldSpace\<rparr>,
        isDraggingMeasurement := True\<rparr>"
  by (simp add: dragging_def new_MeasureMenuController_def left_button_def pick_surface_def
        ToggleCreateMode_def SetActionState_def HandlePointerDown_def endpoint_pick_def
        StartNewMeasurement_def Let_def)

lemma keydown_one: "keydownListeners s = 1 \<Longrightarrow> keydown key s = onKeyDown key s"
  by (simp add: keydown_def)

lemma drag_in_tool_eq:
  "drag_in_tool =
     dragging\<lparr>pointerObserver := True, beforeRenderObserver := True, keydownListeners := 1\<rparr>"
  by (simp add: drag_in_tool_def dragging_eq EnableMeasuring_def new_MeasureMenuController_def
        left_button_def pick_surface_def
        ToggleCreateMode_def SetActionState_def HandlePointerDown_def endpoint_pick_def
        StartNewMeasurement_def Let_def)

lemma move_in_tool_eq:
  "move_in_tool =
     moving3\<lparr>pointerObserver := True, beforeRenderObserver := True, keydownListeners := 1\<rparr>"
  by (simp add: move_in_tool_def moving3_eq with_entity3_eq EnableMeasuring_def
        msg3_def component_def TryAddMeasurementObject_def
        left_button_def pick_start3_def
        new_MeasureMenuController_def plate_defs
        HandlePointerDown_def HandlePointerMove_def hover_endpoint_def endpoint_pick_def
        pointToUse_def StartMovingPoint_def on_object_def UpdateMovePreview_def
        ClearMovePreview_def Let_def)

lemma escaped_eq:
  "keydown ''Escape'' drag_in_tool = drag_in_tool\<lparr>currentActionState := None_state\<rparr>"
  by (simp add: keydown_def drag_in_tool_eq dragging_eq new_MeasureMenuController_def
        onKeyDown_def SetActionState_def Let_def)

text \<open>
  A press of Escape or of \<^verbatim>\<open>x\<close> once the tool was enabled again, so that more than
  one listener runs: the first run of Escape leaves the mode \<^verbatim>\<open>None\<close>, every later
  one calls \<^verbatim>\<open>DisableMeasuring\<close>, which ends the drag and removes the pointer observer;
  the second run of \<^verbatim>\<open>x\<close> finds no move and toggles delete mode.
\<close>

lemma onKeyDown_Escape_idle:
  "currentActionState s = None_state \<Longrightarrow> onKeyDown ''Escape'' s = DisableMeasuring s"
  by (simp add: onKeyDown_def)

lemma DisableMeasuring_idle:
  "currentActionState s = None_state \<Longrightarrow>
     currentActionState (DisableMeasuring s) = None_state
   \<and> DisableMeasuring (DisableMeasuring s) = DisableMeasuring s"
  by (simp add: DisableMeasuring_def Let_def)

lemma Escape_runs_idle:
  "currentActionState s = None_state \<Longrightarrow>
     (onKeyDown ''Escape'' ^^ Suc k) s = DisableMeasuring s"
proof (induction k)
  case 0
  then show ?case by (simp add: onKeyDown_Escape_idle)
next
  case (Suc k)
  have "(onKeyDown ''Escape'' ^^ Suc (Suc k)) s
          = onKeyDown ''Escape'' ((onKeyDown ''Escape'' ^^ Suc k) s)"
    by simp
  also have "\<dots> = onKeyDown ''Escape'' (DisableMeasuring s)"
    using Suc by simp
  also have "\<dots> = DisableMeasuring s"
    using DisableMeasuring_idle [OF Suc.prems] by (simp add: onKeyDown_Escape_idle)
  finally show ?case .
qed

lemma SetActionState_fields:
  "keydownListeners (SetActionState st s) = keydownListeners s
   \<and> currentActionState (SetActionState st s) = st
   \<and> scene_set (SetActionState st s) = scene_set s"
  by (cases "plateObjects (s\<lparr>currentActionState := st\<rparr>) (hoveredMeasurementId s)")
     (simp_all add: SetActionState_def SetMeasurementColor_def on_object_def Let_def)

lemma Escape_press_reenabled:
  assumes "currentActionState s \<noteq> None_state" and "keydownListeners s = Suc (Suc k)"
  shows "keydown ''Escape'' s = DisableMeasuring (SetActionState None_state s)"
proof -
  have first: "onKeyDown ''Escape'' s = SetActionState None_state s"
    using assms(1) by (simp add: onKeyDown_def)
  have "keydown ''Escape'' s = (onKeyDown ''Escape'' ^^ Suc k) (onKeyDown ''Escape'' s)"
    unfolding keydown_def assms(2) by (simp only: funpow_Suc_right o_apply)
  also have "\<dots> = DisableMeasuring (SetActionState None_state s)"
    unfolding first using SetActionState_fields [of None_state s]
    by (simp only: Escape_runs_idle)
  finally show ?thesis .
qed

lemma Escape_press_reenabled_drag:
  assumes "currentActionState s \<noteq> None_state" and "keydownListeners s = Suc (Suc k)"
    and "scene_set s"
  shows "\<not> isDraggingMeasurement (keydown ''Escape'' s)
       \<and> startPoint_tool (keydown ''Escape'' s) = None
       \<and> currentLine (keydown ''Escape'' s) = None
       \<and> \<not> pointerObserver (keydown ''Escape'' s)"
  using assms(3) SetActionState_fields [of None_state s]
  unfolding Escape_press_reenabled [OF assms(1,2)]
  by (simp add: DisableMeasuring_def Let_def)

lemma X_press_reenabled:
  assumes "isMovingPoint s" and "selectedMeasurementId s \<noteq> -1"
    and "keydownListeners s = 2"
  shows "currentActionState (keydown ''x'' s)
           = (if currentActionState s = Remove then None_state else Remove)"
proof -
  define s1 where "s1 = onKeyDown ''x'' s"
  have s1: "\<not> isMovingPoint s1" "currentActionState s1 = currentActionState s"
    using assms(1,2) unfolding s1_def
    by (simp_all add: onKeyDown_def ClearMovePreview_def DeleteMeasurement_def
          SendDeleteMeasurementRequestToServer_def SendData_def console_error_def Let_def)
  have "keydown ''x'' s = onKeyDown ''x'' s1"
    unfolding keydown_def assms(3) s1_def by (simp add: numeral_2_eq_2)
  also have "\<dots> = ToggleDeleteMode s1"
    using s1(1) by (simp add: onKeyDown_def)
  finally show ?thesis
    using s1(2) SetActionState_fields by (simp add: ToggleDeleteMode_def)
qed

text \<open>
  What the create handler does to a key no entry of the batch carries as a truthy id;
  the key \<open>0\<close> is never carried as one.
\<close>

lemma receive_entry_other_key:
  assumes "k = 0 \<or> (\<forall>sp ep d. e \<noteq> ObjectEntry (IdNumber k) sp ep d)"
  shows "measurementsList (receive_entry e s) k = measurementsList s k
       \<and> plateObjects (receive_entry e s) k = plateObjects s k"
proof (cases e)
  case FalsyEntry
  then show ?thesis by (simp add: console_warn_def)
next
  case (ObjectEntry wid sp ep d)
  with assms show ?thesis
    by (cases wid)
       (auto simp add: console_warn_def console_error_def TryAddMeasurementObject_def
          Let_def split: sum.splits)
qed

lemma forEach_other_key:
  assumes "k = 0 \<or> (\<forall>sp ep d. ObjectEntry (IdNumber k) sp ep d \<notin> set es)"
  shows "measurementsList (forEach es s) k = measurementsList s k
       \<and> plateObjects (forEach es s) k = plateObjects s k"
  using assms
proof (induction es arbitrary: s)
  case Nil
  then show ?case by simp
next
  case (Cons e es)
  from Cons.prems have here: "k = 0 \<or> (\<forall>sp ep d. e \<noteq> ObjectEntry (IdNumber k) sp ep d)"
    and rest: "k = 0 \<or> (\<forall>sp ep d. ObjectEntry (IdNumber k) sp ep d \<notin> set es)"
    by auto
  from Cons.IH [OF rest, of "receive_entry e s"] receive_entry_other_key [OF here, of s]
  show ?case by simp
qed

lemma forEach_append: "forEach (es @ es') s = forEach es' (forEach es s)"
  by (induction es arbitrary: s) simp_all

text \<open>
  Neither a key, a pointer event nor a frame tick adds or removes a key of the two
  maps, and the inbound handlers keep the two maps equal when they were: the same
  reference under the same key.
\<close>

lemma on_object_maps:
  "measurementsList (on_object r f s) = measurementsList s
   \<and> plateObjects (on_object r f s) = plateObjects s"
  by (simp add: on_object_def)

lemma SendData_maps:
  "measurementsList (SendData q m s) = measurementsList s
   \<and> plateObjects (SendData q m s) = plateObjects s"
  by (simp add: SendData_def console_error_def Let_def)

lemma SetMeasurementColor_maps:
  "measurementsList (SetMeasurementColor i c s) = measurementsList s
   \<and> plateObjects (SetMeasurementColor i c s) = plateObjects s"
  by (cases "plateObjects s i") (simp_all add: SetMeasurementColor_def on_object_maps)

lemma SetActionState_maps:
  "measurementsList (SetActionState st s) = measurementsList s
   \<and> plateObjects (SetActionState st s) = plateObjects s"
  by (simp add: SetActionState_def SetMeasurementColor_maps Let_def)

lemma DeleteMeasurement_maps:
  "measurementsList (DeleteMeasurement i s) = measurementsList s
   \<and> plateObjects (DeleteMeasurement i s) = plateObjects s"
  by (simp add: DeleteMeasurement_def SendDeleteMeasurementRequestToServer_def SendData_maps
        console_warn_def)

lemma DisableMeasuring_maps:
  "measurementsList (DisableMeasuring s) = measurementsList s
   \<and> plateObjects (DisableMeasuring s) = plateObjects s"
  by (simp add: DisableMeasuring_def SetActionState_maps Let_def)

lemma onKeyDown_maps:
  "measurementsList (onKeyDown key s) = measurementsList s
   \<and> plateObjects (onKeyDown key s) = plateObjects s"
  by (simp add: onKeyDown_def DisableMeasuring_maps ToggleDeleteMode_def SetActionState_maps
        DeleteMeasurement_maps ClearMovePreview_def Let_def)

lemma UpdateExistingMeasurement_maps:
  "measurementsList (UpdateExistingMeasurement i a b s) = measurementsList s
   \<and> plateObjects (UpdateExistingMeasurement i a b s) = plateObjects s"
  by (cases "plateObjects s i"; cases "measurementsList s i")
     (simp_all add: UpdateExistingMeasurement_def SendUpdateMeasurementRequestToServer_def
        SendData_maps on_object_maps console_error_def Let_def)

lemma StartMovingPoint_maps:
  "measurementsList (StartMovingPoint r t i s) = measurementsList s
   \<and> plateObjects (StartMovingPoint r t i s) = plateObjects s"
  by (simp add: StartMovingPoint_def on_object_maps Let_def)

lemma CompleteMove_maps:
  "measurementsList (CompleteMove p s) = measurementsList s
   \<and> plateObjects (CompleteMove p s) = plateObjects s"
  by (cases "selectedPlateObject s"; cases "selectedPointType s"; cases "fixedPoint s")
     (simp_all add: CompleteMove_def UpdateExistingMeasurement_maps ClearMovePreview_def
        Let_def)

lemma CancelMoveOperation_maps:
  "measurementsList (CancelMoveOperation s) = measurementsList s
   \<and> plateObjects (CancelMoveOperation s) = plateObjects s"
  by (cases "selectedPlateObject s")
     (simp_all add: CancelMoveOperation_def on_object_maps ClearMovePreview_def Let_def)

lemma CompleteMeasurement_maps:
  "CompleteMeasurement e s = Inr s' \<Longrightarrow>
     measurementsList s' = measurementsList s \<and> plateObjects s' = plateObjects s"
  by (cases "startPoint_tool s")
     (auto simp add: CompleteMeasurement_def SendCreateNewMeasurementRequestToServer_def
        SendData_maps Let_def)

lemma HandlePointerDown_maps:
  "measurementsList (HandlePointerDown ev pick s) = measurementsList s
   \<and> plateObjects (HandlePointerDown ev pick s) = plateObjects s"
  by (simp add: HandlePointerDown_def DeleteMeasurement_maps StartMovingPoint_maps
        StartNewMeasurement_def split: option.splits)

lemma HandlePointerUp_maps:
  assumes "HandlePointerUp ev pick s = Inr s'"
  shows "measurementsList s' = measurementsList s \<and> plateObjects s' = plateObjects s"
proof (cases "pointToUse pick s")
  case None
  with assms show ?thesis
    by (auto simp add: HandlePointerUp_def CancelMoveOperation_maps
          CancelMeasurementCreation_def split: if_splits)
next
  case (Some p)
  show ?thesis
  proof (cases "CompleteMeasurement p s")
    case (Inl e)
    with Some assms show ?thesis
      by (auto simp add: HandlePointerUp_def CompleteMove_maps split: if_splits)
  next
    case (Inr s1)
    from CompleteMeasurement_maps [OF Inr] Some Inr assms show ?thesis
      by (auto simp add: HandlePointerUp_def CompleteMove_maps split: if_splits)
  qed
qed

lemma hover_delete_mode_maps:
  "measurementsList (hover_delete_mode pick s) = measurementsList s
   \<and> plateObjects (hover_delete_mode pick s) = plateObjects s"
  by (simp add: hover_delete_mode_def SetMeasurementColor_maps Let_def)

lemma hover_endpoint_maps:
  "measurementsList (hover_endpoint pick s) = measurementsList s
   \<and> plateObjects (hover_endpoint pick s) = plateObjects s"
  by (simp add: hover_endpoint_def on_object_maps Let_def split: option.splits)

lemma UpdateMovePreview_maps:
  "measurementsList (UpdateMovePreview p s) = measurementsList s
   \<and> plateObjects (UpdateMovePreview p s) = plateObjects s"
  by (simp add: UpdateMovePreview_def ClearMovePreview_def)

lemma UpdateMeasuringDisplay_maps:
  "measurementsList (UpdateMeasuringDisplay p s) = measurementsList s
   \<and> plateObjects (UpdateMeasuringDisplay p s) = plateObjects s"
  by (simp add: UpdateMeasuringDisplay_def)

lemma HandlePointerMove_maps:
  "measurementsList (HandlePointerMove pick s) = measurementsList s
   \<and> plateObjects (HandlePointerMove pick s) = plateObjects s"
proof (cases "scene_set s \<and> currentActionState s \<noteq> Remove")
  case False
  then show ?thesis
    by (auto simp add: HandlePointerMove_def hover_delete_mode_maps)
next
  case True
  define s1 where "s1 = (if \<not> isMovingPoint s \<and> \<not> isDraggingMeasurement s
                         then hover_endpoint pick s else s)"
  define s2 where "s2 = (if hit pick \<and> pickedPoint pick \<noteq> None
                         then s1\<lparr>lastValidPickedPoint := pickedPoint pick\<rparr> else s1)"
  have maps: "measurementsList s2 = measurementsList s \<and> plateObjects s2 = plateObjects s"
    by (simp add: s1_def s2_def hover_endpoint_maps)
  have run: "HandlePointerMove pick s =
               (case pointToUse pick s2 of
                  None \<Rightarrow> s2
                | Some p \<Rightarrow>
                    if isMovingPoint s2 \<and> selectedPlateObject s2 \<noteq> None
                         \<and> selectedPointType s2 \<noteq> None
                    then UpdateMovePreview p s2
                    else if isDraggingMeasurement s2 \<and> startPoint_tool s2 \<noteq> None
                              \<and> currentLine s2 \<noteq> None
                    then UpdateMeasuringDisplay p s2
                    else s2)"
    using True unfolding HandlePointerMove_def s1_def s2_def Let_def by simp
  show ?thesis
    unfolding run
    by (cases "pointToUse pick s2")
       (simp_all add: maps UpdateMovePreview_maps UpdateMeasuringDisplay_maps)
qed

lemma TryAddMeasurementObject_agree:
  "measurementsList s = plateObjects s \<Longrightarrow>
     measurementsList (TryAddMeasurementObject m s) = plateObjects (TryAddMeasurementObject m s)"
  by (cases "decode_point (msg_startPoint m)"; cases "decode_point (msg_endPoint m)")
     (simp_all add: TryAddMeasurementObject_def console_error_def Let_def)

lemma receive_entry_agree:
  "measurementsList s = plateObjects s \<Longrightarrow>
     measurementsList (receive_entry e s) = plateObjects (receive_entry e s)"
  by (cases e) (simp_all add: TryAddMeasurementObject_agree console_warn_def split: WireId.splits)

lemma forEach_agree:
  "measurementsList s = plateObjects s \<Longrightarrow>
     measurementsList (forEach es s) = plateObjects (forEach es s)"
  by (induction es arbitrary: s) (simp_all add: receive_entry_agree)

lemma ReceiveCreate_agree:
  "measurementsList s = plateObjects s \<Longrightarrow>
     measurementsList (ReceiveCreateNewMeasurementRequestFromServer b s)
       = plateObjects (ReceiveCreateNewMeasurementRequestFromServer b s)"
  by (cases b) (simp_all add: forEach_agree console_error_def)

lemma ReceiveDelete_agree:
  "measurementsList s = plateObjects s \<Longrightarrow>
     measurementsList (ReceiveDeleteMeasurementRequestFromServer i s)
       = plateObjects (ReceiveDeleteMeasurementRequestFromServer i s)"
  by (cases "plateObjects s i")
     (simp_all add: console_warn_def ReceiveDeleteMeasurementRequestFromServer_def
        ClearMovePreview_def on_object_def Let_def)

lemma ReceiveUpdate_maps:
  "ReceiveUpdateMeasurementRequestFromServer u s = Inr s' \<Longrightarrow>
     measurementsList s' = measurementsList s \<and> plateObjects s' = plateObjects s"
  by (cases "plateObjects s (msg_instance_id u)"; cases "measurementsList s (msg_instance_id u)";
      cases "decode_point (msg_startPoint u)"; cases "decode_point (msg_endPoint u)")
     (auto simp add: console_warn_def ReceiveUpdateMeasurementRequestFromServer_def
        on_object_def Let_def)

subsection \<open>Distance of a stored measurement\<close>

text \<open>
  C1. The claim is that both inbound handlers recompute the distance from the received
  points. The update handler does: after it has run on an id that both maps hold, the
  plate object registered for the id has the decoded points and the Euclidean distance
  between them, whatever \<^verbatim>\<open>distanceMeasured\<close> the message carried (the value is
  written first and then overwritten by \<^verbatim>\<open>UpdateMeasurement\<close>). The create handler
  does not: \<^verbatim>\<open>TryAddMeasurementObject\<close> passes the received \<^verbatim>\<open>distanceMeasured\<close>
  to the constructor, and the new entry keeps it.
\<close>

theorem distance_after_inbound_handlers:
  "(plateObjects s (msg_instance_id u) = Some r \<and>
    measurementsList s (msg_instance_id u) = Some r' \<and>
    decode_point (msg_startPoint u) = Inr sp \<and> decode_point (msg_endPoint u) = Inr ep
    \<longrightarrow> (\<exists>s'. ReceiveUpdateMeasurementRequestFromServer u s = Inr s'
              \<and> startPoint (objects s' r) = sp \<and> endPoint (objects s' r) = ep
              \<and> distanceMeasured (objects s' r) = Vector3_Distance sp ep))
   \<and> (instance_set s \<and> measurementsList s (msg_instance_id m) = None \<and>
      decode_point (msg_startPoint m) = Inr sp \<and> decode_point (msg_endPoint m) = Inr ep
      \<longrightarrow> measurementsList (TryAddMeasurementObject m s) (msg_instance_id m)
            = Some (nextObject s)
        \<and> plateObjects (TryAddMeasurementObject m s) (msg_instance_id m)
            = Some (nextObject s)
        \<and> startPoint (objects (TryAddMeasurementObject m s) (nextObject s)) = sp
        \<and> endPoint (objects (TryAddMeasurementObject m s) (nextObject s)) = ep
        \<and> distanceMeasured (objects (TryAddMeasurementObject m s) (nextObject s))
            = msg_distanceMeasured m)"
  by (simp add: ReceiveUpdateMeasurementRequestFromServer_def TryAddMeasurementObject_def
        on_object_def plate_defs Let_def)

text \<open>
  The theorem at the measurement \<open>3\<close>: an update to \<open>(0, 0, 0)\<close>, \<open>(0, 0, 1)\<close> that
  carries the distance \<open>99\<close> leaves the distance \<open>1\<close>; a create that carries \<open>99\<close>
  stores \<open>99\<close>.
\<close>

theorem distance_after_inbound_handlers_witness:
  "(\<exists>s'. ReceiveUpdateMeasurementRequestFromServer
            (msg3\<lparr>msg_endPoint := IsVector3 (Vector3 0 0 1), msg_distanceMeasured := 99\<rparr>)
            with_entity3 = Inr s'
         \<and> startPoint (objects s' 0) = Vector3 0 0 0 \<and> endPoint (objects s' 0) = Vector3 0 0 1
         \<and> distanceMeasured (objects s' 0) = 1)
   \<and> distanceMeasured
       (objects (TryAddMeasurementObject (msg3\<lparr>msg_distanceMeasured := 99\<rparr>)
                   new_MeasureMenuController) 0) = 99"
  using distance_after_inbound_handlers
    [of with_entity3 "msg3\<lparr>msg_endPoint := IsVector3 (Vector3 0 0 1), msg_distanceMeasured := 99\<rparr>"
        0 0 "Vector3 0 0 0" "Vector3 0 0 1"]
    distance_after_inbound_handlers
    [of new_MeasureMenuController msg3 0 0 "Vector3 0 0 0" "Vector3 3 4 0"
        "msg3\<lparr>msg_distanceMeasured := 99\<rparr>"]
  by (simp add: with_entity3_eq msg3_def component_def new_MeasureMenuController_def
        Vector3_Distance_def)

text \<open>
  The claim as stated fails on a create broadcast for id \<open>3\<close> from \<open>(0, 0, 0)\<close> to
  \<open>(3, 4, 0)\<close> that carries the distance \<open>99\<close>: the entry is stored with the distance
  \<open>99\<close>, and the distance between its points is \<open>5\<close>.
\<close>

theorem create_stores_received_distance:
  "measurementsList
     (TryAddMeasurementObject (msg3\<lparr>msg_distanceMeasured := 99\<rparr>) new_MeasureMenuController) 3
     = Some 0
   \<and> distanceMeasured
       (objects (TryAddMeasurementObject (msg3\<lparr>msg_distanceMeasured := 99\<rparr>)
                   new_MeasureMenuController) 0) = 99
   \<and> Vector3_Distance
       (startPoint (objects (TryAddMeasurementObject (msg3\<lparr>msg_distanceMeasured := 99\<rparr>)
                   new_MeasureMenuController) 0))
       (endPoint (objects (TryAddMeasurementObject (msg3\<lparr>msg_distanceMeasured := 99\<rparr>)
                   new_MeasureMenuController) 0)) = 5"
  by (simp add: msg3_def new_MeasureMenuController_def component_def
        TryAddMeasurementObject_def plate_defs Vector3_Distance_def sqrt_25)

subsection \<open>Outbound requests\<close>

text \<open>
  C2. The claim is that no outbound request changes the registry. It holds for the
  create request (\<^verbatim>\<open>CompleteMeasurement\<close>) and for the delete request
  (\<^verbatim>\<open>DeleteMeasurement\<close>): both leave the two maps and every plate object as
  they were. It fails for the update request: \<^verbatim>\<open>UpdateExistingMeasurement\<close>, which
  \<^verbatim>\<open>CompleteMove\<close> calls, keeps the keys and the references of both maps, but
  writes the new start point, end point and recomputed distance into the stored plate
  object before it sends the request.
\<close>

theorem outbound_requests_and_registry:
  "registry (DeleteMeasurement j s) = registry s
   \<and> (startPoint_tool s = Some sp \<longrightarrow>
        (\<exists>s'. CompleteMeasurement e s = Inr s' \<and> registry s' = registry s))
   \<and> measurementsList (UpdateExistingMeasurement i a b s) = measurementsList s
   \<and> plateObjects (UpdateExistingMeasurement i a b s) = plateObjects s
   \<and> (plateObjects s i = Some r \<and> measurementsList s i = Some r' \<longrightarrow>
        startPoint (objects (UpdateExistingMeasurement i a b s) r) = a
      \<and> endPoint (objects (UpdateExistingMeasurement i a b s) r) = b
      \<and> distanceMeasured (objects (UpdateExistingMeasurement i a b s) r)
          = Vector3_Distance a b)
   \<and> (plateObjects s i = Some r \<and> measurementsList s i = Some r' \<and>
      selectedMeasurementId s = i \<and> selectedPlateObject s = Some q \<and>
      selectedPointType s = Some t \<and> fixedPoint s = Some f \<longrightarrow>
        startPoint (objects (CompleteMove p s) r) = (if t = start then p else f)
      \<and> endPoint (objects (CompleteMove p s) r) = (if t = start then f else p)
      \<and> distanceMeasured (objects (CompleteMove p s) r)
          = Vector3_Distance (if t = start then p else f) (if t = start then f else p))"
  by (simp add: registry_def DeleteMeasurement_def SendDeleteMeasurementRequestToServer_def
        SendData_def console_warn_def console_error_def CompleteMeasurement_def
        SendCreateNewMeasurementRequestToServer_def UpdateExistingMeasurement_def
        SendUpdateMeasurementRequestToServer_def CompleteMove_def ClearMovePreview_def
        on_object_def plate_defs Let_def split: option.splits)

text \<open>
  The theorem at the measurement \<open>3\<close>: a completed create-drag leaves the registry
  alone; an update of its start point to \<open>(1, 0, 0)\<close>, directly or by completing a
  move of the start point, is stored at once.
\<close>

theorem outbound_requests_and_registry_witness:
  "(\<exists>s'. CompleteMeasurement (Vector3 3 4 0)
           (StartNewMeasurement (Vector3 0 0 0) with_entity3) = Inr s'
         \<and> registry s' = registry with_entity3)
   \<and> startPoint (objects (UpdateExistingMeasurement 3 (Vector3 1 0 0) (Vector3 3 4 0)
        with_entity3) 0) = Vector3 1 0 0
   \<and> startPoint (objects (CompleteMove (Vector3 1 0 0) moving3) 0) = Vector3 1 0 0
   \<and> endPoint (objects (CompleteMove (Vector3 1 0 0) moving3) 0) = Vector3 3 4 0"
  using outbound_requests_and_registry
    [of 3 "StartNewMeasurement (Vector3 0 0 0) with_entity3" "Vector3 0 0 0" "Vector3 3 4 0"
        3 "Vector3 1 0 0" "Vector3 3 4 0"]
    outbound_requests_and_registry
    [of 3 with_entity3 "Vector3 0 0 0" "Vector3 3 4 0"
        3 "Vector3 1 0 0" "Vector3 3 4 0" 0 0]
    outbound_requests_and_registry
    [of 3 moving3 "Vector3 0 0 0" "Vector3 3 4 0"
        3 "Vector3 1 0 0" "Vector3 3 4 0" 0 0 0 start "Vector3 3 4 0" "Vector3 1 0 0"]
  by (simp add: with_entity3_eq moving3_eq StartNewMeasurement_def registry_def
       new_MeasureMenuController_def)

text \<open>
  The claim as stated fails when the pointer is released at \<open>(1, 0, 0)\<close> while the
  start point of the measurement \<open>3\<close> is being moved: the stored start point was
  \<open>(0, 0, 0)\<close> and is \<open>(1, 0, 0)\<close> after the release, when the update request has
  only been sent.
\<close>

theorem move_written_before_broadcast:
  "startPoint (objects moving3 0) = Vector3 0 0 0
   \<and> HandlePointerUp left_button (pick_surface (Vector3 1 0 0)) moving3
       = Inr (CompleteMove (Vector3 1 0 0) moving3)
   \<and> startPoint (objects (CompleteMove (Vector3 1 0 0) moving3) 0) = Vector3 1 0 0
   \<and> measurementsList (CompleteMove (Vector3 1 0 0) moving3) 3 = Some 0
   \<and> SendData_calls (CompleteMove (Vector3 1 0 0) moving3)
       = [UpdateMeasurementObject 3 (Vector3 1 0 0) (Vector3 3 4 0)
            (Vector3_Distance (Vector3 1 0 0) (Vector3 3 4 0))]"
  by (simp add: moving3_eq with_entity3_eq new_MeasureMenuController_def
        HandlePointerUp_def left_button_def pick_surface_def pointToUse_def
        CompleteMove_def UpdateExistingMeasurement_def
        SendUpdateMeasurementRequestToServer_def SendData_def ClearMovePreview_def
        on_object_def plate_defs Let_def)

subsection \<open>A delete broadcast during a move\<close>

text \<open>
  C3. When the delete broadcast names an id \<open>n\<close> that is a key of
  \<^verbatim>\<open>plateObjects\<close> and is the selected id of the move, the handler removes \<open>n\<close>
  from both maps, clears \<^verbatim>\<open>isMovingPoint\<close>, the selected object, point type and id
  and the fixed point, and discards the move preview. The claim adds that no local
  state references the deleted entity afterwards; that part fails, since the handler
  leaves the hover bookkeeping as it was, and \<^verbatim>\<open>hoveredMeasurementId\<close> is not
  updated while a point is moved.
\<close>

theorem delete_broadcast_during_move:
  assumes "plateObjects s n = Some r" and "selectedMeasurementId s = n"
  shows "plateObjects (ReceiveDeleteMeasurementRequestFromServer n s) n = None
       \<and> measurementsList (ReceiveDeleteMeasurementRequestFromServer n s) n = None
       \<and> \<not> isMovingPoint (ReceiveDeleteMeasurementRequestFromServer n s)
       \<and> selectedPlateObject (ReceiveDeleteMeasurementRequestFromServer n s) = None
       \<and> selectedPointType (ReceiveDeleteMeasurementRequestFromServer n s) = None
       \<and> selectedMeasurementId (ReceiveDeleteMeasurementRequestFromServer n s) = -1
       \<and> fixedPoint (ReceiveDeleteMeasurementRequestFromServer n s) = None
       \<and> movePreviewLine (ReceiveDeleteMeasurementRequestFromServer n s) = None
       \<and> movePreviewText (ReceiveDeleteMeasurementRequestFromServer n s) = None
       \<and> hoveredMeasurementId (ReceiveDeleteMeasurementRequestFromServer n s)
           = hoveredMeasurementId s
       \<and> hoveredPointType (ReceiveDeleteMeasurementRequestFromServer n s)
           = hoveredPointType s"
  using assms
  by (simp add: ReceiveDeleteMeasurementRequestFromServer_def ClearMovePreview_def
        on_object_def Let_def)

text \<open>
  The theorem at the controller that is moving the start point of the measurement
  \<open>3\<close>.
\<close>

theorem delete_broadcast_during_move_witness:
  "plateObjects (ReceiveDeleteMeasurementRequestFromServer 3 moving3) 3 = None
   \<and> measurementsList (ReceiveDeleteMeasurementRequestFromServer 3 moving3) 3 = None
   \<and> \<not> isMovingPoint (ReceiveDeleteMeasurementRequestFromServer 3 moving3)
   \<and> selectedPlateObject (ReceiveDeleteMeasurementRequestFromServer 3 moving3) = None
   \<and> selectedMeasurementId (ReceiveDeleteMeasurementRequestFromServer 3 moving3) = -1"
  using delete_broadcast_during_move [of moving3 3 0]
  by (simp add: moving3_eq with_entity3_eq new_MeasureMenuController_def)

text \<open>
  The claim as stated fails on that controller, reached from the new one by a create
  broadcast, a frame with the pointer over the start collider and a press on it: after
  the delete broadcast for \<open>3\<close> the id is in neither map, and
  \<^verbatim>\<open>hoveredMeasurementId\<close> is still \<open>3\<close>.
\<close>

theorem hovered_id_survives_delete:
  "isMovingPoint moving3 \<and> selectedMeasurementId moving3 = 3
   \<and> plateObjects moving3 3 = Some 0
   \<and> plateObjects (ReceiveDeleteMeasurementRequestFromServer 3 moving3) 3 = None
   \<and> measurementsList (ReceiveDeleteMeasurementRequestFromServer 3 moving3) 3 = None
   \<and> hoveredMeasurementId (ReceiveDeleteMeasurementRequestFromServer 3 moving3) = 3"
  by (simp add: moving3_eq with_entity3_eq new_MeasureMenuController_def
        ReceiveDeleteMeasurementRequestFromServer_def ClearMovePreview_def
        on_object_def Let_def)

subsection \<open>Duplicate create broadcasts\<close>

text \<open>
  C4. The inbound create handler is idempotent. When the id of the payload is already
  a key of \<^verbatim>\<open>measurementsList\<close> (the map the handler tests), the handler leaves
  the registry as it was: the entry is neither replaced nor changed, and the whole
  controller is unchanged. Running the handler twice with one payload gives the
  registry that running it once gives; and when the first payload decodes, a second
  payload with the same id changes nothing and the id is a key afterwards.
\<close>

theorem create_handler_idempotent:
  "(measurementsList s (msg_instance_id m) = Some r \<longrightarrow>
      registry (TryAddMeasurementObject m s) = registry s)
   \<and> (measurementsList s (msg_instance_id m) = Some r \<and> instance_set s \<longrightarrow>
      TryAddMeasurementObject m s = s)
   \<and> registry (TryAddMeasurementObject m (TryAddMeasurementObject m s))
       = registry (TryAddMeasurementObject m s)
   \<and> (instance_set s \<and> msg_instance_id m' = msg_instance_id m \<and>
      decode_point (msg_startPoint m) = Inr sp \<and> decode_point (msg_endPoint m) = Inr ep
      \<longrightarrow> TryAddMeasurementObject m' (TryAddMeasurementObject m s)
            = TryAddMeasurementObject m s
        \<and> measurementsList (TryAddMeasurementObject m s) (msg_instance_id m) \<noteq> None)"
  by (auto simp add: registry_def TryAddMeasurementObject_def console_error_def Let_def
        split: sum.splits)

text \<open>
  The theorem at the measurement \<open>3\<close>: a second create for \<open>3\<close> with another
  distance is ignored, and two deliveries of one broadcast store one entry.
\<close>

theorem create_handler_idempotent_witness:
  "TryAddMeasurementObject (msg3\<lparr>msg_distanceMeasured := 99\<rparr>) with_entity3 = with_entity3
   \<and> TryAddMeasurementObject msg3 (TryAddMeasurementObject msg3 new_MeasureMenuController)
       = TryAddMeasurementObject msg3 new_MeasureMenuController
   \<and> measurementsList (TryAddMeasurementObject msg3 new_MeasureMenuController) 3 = Some 0"
proof -
  have present: "measurementsList with_entity3
                   (msg_instance_id (msg3\<lparr>msg_distanceMeasured := 99\<rparr>)) = Some 0"
    by (simp add: with_entity3_eq msg3_def)
  have inst: "instance_set with_entity3" "instance_set new_MeasureMenuController"
    by (simp_all add: with_entity3_eq new_MeasureMenuController_def)
  have dec: "decode_point (msg_startPoint msg3) = Inr (Vector3 0 0 0)"
    "decode_point (msg_endPoint msg3) = Inr (Vector3 3 4 0)"
    by (simp_all add: msg3_def component_def)
  have stored: "measurementsList (TryAddMeasurementObject msg3 new_MeasureMenuController) 3
                  = Some 0"
    using with_entity3_eq by (simp add: with_entity3_def)
  from create_handler_idempotent
         [of with_entity3 "msg3\<lparr>msg_distanceMeasured := 99\<rparr>" 0] present inst
  have first: "TryAddMeasurementObject (msg3\<lparr>msg_distanceMeasured := 99\<rparr>) with_entity3
                 = with_entity3"
    by blast
  from create_handler_idempotent
         [of new_MeasureMenuController msg3 _ msg3 "Vector3 0 0 0" "Vector3 3 4 0"] inst dec
  have second: "TryAddMeasurementObject msg3
                  (TryAddMeasurementObject msg3 new_MeasureMenuController)
                = TryAddMeasurementObject msg3 new_MeasureMenuController"
    by blast
  from first second stored show ?thesis by simp
qed

subsection \<open>Broadcasts for an id the registry does not hold\<close>

text \<open>
  C5. For an id that is not a key of \<^verbatim>\<open>plateObjects\<close>, the inbound delete handler
  and the inbound update handler return normally (the update handler with \<open>Inr\<close>, before
  it decodes anything), emit one warning each, and leave the registry and every other
  field of the controller as they were.
\<close>

theorem absent_id_ignored:
  assumes "plateObjects s i = None" and "msg_instance_id u = i"
  shows "ReceiveDeleteMeasurementRequestFromServer i s =
           s\<lparr>console := console s @
               [ConsoleWarn ''Received delete request for unknown measurement'']\<rparr>
       \<and> ReceiveUpdateMeasurementRequestFromServer u s =
           Inr (s\<lparr>console := console s @
               [ConsoleWarn ''Received update for unknown measurement'']\<rparr>)"
  using assms
  by (simp add: ReceiveDeleteMeasurementRequestFromServer_def
        ReceiveUpdateMeasurementRequestFromServer_def console_warn_def)

text \<open>
  The theorem at id \<open>42\<close> on the new controller, the update carrying null points.
\<close>

theorem absent_id_ignored_witness:
  "ReceiveDeleteMeasurementRequestFromServer 42 new_MeasureMenuController =
     new_MeasureMenuController
       \<lparr>console := [ConsoleWarn ''Received delete request for unknown measurement'']\<rparr>
   \<and> ReceiveUpdateMeasurementRequestFromServer
       \<lparr>msg_instance_id = 42, msg_startPoint = Nullish, msg_endPoint = Nullish,
        msg_distanceMeasured = 1\<rparr> new_MeasureMenuController =
     Inr (new_MeasureMenuController
       \<lparr>console := [ConsoleWarn ''Received update for unknown measurement'']\<rparr>)"
  using absent_id_ignored [of new_MeasureMenuController 42
      "\<lparr>msg_instance_id = 42, msg_startPoint = Nullish, msg_endPoint = Nullish,
        msg_distanceMeasured = 1\<rparr>"]
  by (simp add: new_MeasureMenuController_def)

subsection \<open>Escape during a create-drag\<close>

text \<open>
  C6. The claim is that Escape in a mode other than \<^verbatim>\<open>None\<close> cancels a
  create-drag in flight. With one \<^verbatim>\<open>keydown\<close> listener registered, which is the
  tool enabled once, a press of Escape does set the mode to \<^verbatim>\<open>None\<close>, sends
  nothing and leaves the keys of both maps alone, but the listener calls
  \<^verbatim>\<open>SetActionState\<close> only: the drag flag, the remembered start point and the preview
  line stay as they were. A later release of the pointer over a valid point therefore
  still sends the create request with the id \<open>-1\<close>; the release itself leaves the
  registry as it was. What a press does when more listeners are registered is not part
  of the statement (see \<open>Escape_press_reenabled_drag\<close> above).
\<close>

theorem escape_leaves_drag:
  "(currentActionState s \<noteq> None_state \<and> keydownListeners s = 1 \<longrightarrow>
      currentActionState (keydown ''Escape'' s) = None_state
    \<and> isDraggingMeasurement (keydown ''Escape'' s) = isDraggingMeasurement s
    \<and> startPoint_tool (keydown ''Escape'' s) = startPoint_tool s
    \<and> currentLine (keydown ''Escape'' s) = currentLine s
    \<and> isMovingPoint (keydown ''Escape'' s) = isMovingPoint s
    \<and> SendData_calls (keydown ''Escape'' s) = SendData_calls s
    \<and> measurementsList (keydown ''Escape'' s) = measurementsList s
    \<and> plateObjects (keydown ''Escape'' s) = plateObjects s)
   \<and> (scene_set s \<and> \<not> (pointerType ev = ''mouse'' \<and> button ev \<noteq> 0) \<and>
      \<not> isMovingPoint s \<and> isDraggingMeasurement s \<and> startPoint_tool s = Some sp \<and>
      pointToUse pick s = Some p \<longrightarrow>
      (\<exists>s'. HandlePointerUp ev pick s = Inr s'
          \<and> SendData_calls s' =
              SendData_calls s @ [CreateMeasurementObject (-1) sp p (Vector3_Distance sp p)]
          \<and> registry s' = registry s))"
proof -
  have press: "currentActionState s \<noteq> None_state \<and> keydownListeners s = 1 \<longrightarrow>
      currentActionState (keydown ''Escape'' s) = None_state
    \<and> isDraggingMeasurement (keydown ''Escape'' s) = isDraggingMeasurement s
    \<and> startPoint_tool (keydown ''Escape'' s) = startPoint_tool s
    \<and> currentLine (keydown ''Escape'' s) = currentLine s
    \<and> isMovingPoint (keydown ''Escape'' s) = isMovingPoint s
    \<and> SendData_calls (keydown ''Escape'' s) = SendData_calls s
    \<and> measurementsList (keydown ''Escape'' s) = measurementsList s
    \<and> plateObjects (keydown ''Escape'' s) = plateObjects s"
    by (auto simp add: keydown_def onKeyDown_def SetActionState_def SetMeasurementColor_def
          on_object_def Let_def split: option.splits)
  have release: "scene_set s \<and> \<not> (pointerType ev = ''mouse'' \<and> button ev \<noteq> 0) \<and>
      \<not> isMovingPoint s \<and> isDraggingMeasurement s \<and> startPoint_tool s = Some sp \<and>
      pointToUse pick s = Some p \<longrightarrow>
      (\<exists>s'. HandlePointerUp ev pick s = Inr s'
          \<and> SendData_calls s' =
              SendData_calls s @ [CreateMeasurementObject (-1) sp p (Vector3_Distance sp p)]
          \<and> registry s' = registry s)"
    by (auto simp add: HandlePointerUp_def CompleteMeasurement_def
          SendCreateNewMeasurementRequestToServer_def SendData_def console_error_def
          registry_def Let_def)
  from press release show ?thesis by blast
qed

text \<open>
  The theorem at a drag that started at \<open>(0, 0, 0)\<close> in create mode with the tool
  enabled once, Escape pressed and the pointer released at \<open>(3, 4, 0)\<close>.
\<close>

theorem escape_leaves_drag_witness:
  "currentActionState (keydown ''Escape'' drag_in_tool) = None_state
   \<and> isDraggingMeasurement (keydown ''Escape'' drag_in_tool)
   \<and> startPoint_tool (keydown ''Escape'' drag_in_tool) = Some (Vector3 0 0 0)
   \<and> (\<exists>s'. HandlePointerUp left_button (pick_surface (Vector3 3 4 0))
               (keydown ''Escape'' drag_in_tool) = Inr s'
          \<and> SendData_calls s' =
              [CreateMeasurementObject (-1) (Vector3 0 0 0) (Vector3 3 4 0) 5]
          \<and> registry s' = registry (keydown ''Escape'' drag_in_tool))"
proof -
  have before: "currentActionState drag_in_tool \<noteq> None_state"
    "keydownListeners drag_in_tool = 1" "isDraggingMeasurement drag_in_tool"
    "startPoint_tool drag_in_tool = Some (Vector3 0 0 0)"
    by (simp_all add: drag_in_tool_eq dragging_eq new_MeasureMenuController_def)
  have after: "scene_set (keydown ''Escape'' drag_in_tool)"
    "\<not> (pointerType left_button = ''mouse'' \<and> button left_button \<noteq> 0)"
    "\<not> isMovingPoint (keydown ''Escape'' drag_in_tool)"
    "SendData_calls (keydown ''Escape'' drag_in_tool) = []"
    "pointToUse (pick_surface (Vector3 3 4 0)) (keydown ''Escape'' drag_in_tool)
       = Some (Vector3 3 4 0)"
    "Vector3_Distance (Vector3 0 0 0) (Vector3 3 4 0) = 5"
    unfolding escaped_eq
    by (simp_all add: drag_in_tool_eq dragging_eq new_MeasureMenuController_def
          left_button_def pick_surface_def pointToUse_def Vector3_Distance_def sqrt_25)
  from escape_leaves_drag [of drag_in_tool] before
  have kept: "currentActionState (keydown ''Escape'' drag_in_tool) = None_state"
    "isDraggingMeasurement (keydown ''Escape'' drag_in_tool)"
    "startPoint_tool (keydown ''Escape'' drag_in_tool) = Some (Vector3 0 0 0)"
    by simp_all
  from escape_leaves_drag [of "keydown ''Escape'' drag_in_tool" left_button "Vector3 0 0 0"
      "pick_surface (Vector3 3 4 0)" "Vector3 3 4 0"] kept after
  have "\<exists>s'. HandlePointerUp left_button (pick_surface (Vector3 3 4 0))
               (keydown ''Escape'' drag_in_tool) = Inr s'
          \<and> SendData_calls s' =
              [CreateMeasurementObject (-1) (Vector3 0 0 0) (Vector3 3 4 0) 5]
          \<and> registry s' = registry (keydown ''Escape'' drag_in_tool)"
    by simp
  with kept show ?thesis by simp
qed

text \<open>
  The claim as stated fails on that run: after the press the mode is \<^verbatim>\<open>None\<close>,
  the drag flag, start point and preview line are still set, the pointer observer is
  still registered, and the release sends the create request.
\<close>

theorem create_sent_after_escape:
  "currentActionState drag_in_tool = Add \<and> isDraggingMeasurement drag_in_tool
   \<and> keydownListeners drag_in_tool = 1
   \<and> currentActionState (keydown ''Escape'' drag_in_tool) = None_state
   \<and> isDraggingMeasurement (keydown ''Escape'' drag_in_tool)
   \<and> startPoint_tool (keydown ''Escape'' drag_in_tool) = Some (Vector3 0 0 0)
   \<and> currentLine (keydown ''Escape'' drag_in_tool)
       = Some \<lparr>color = None, renderingGroupId = worldSpace\<rparr>
   \<and> pointerObserver (keydown ''Escape'' drag_in_tool)
   \<and> map_sum id SendData_calls
       (HandlePointerUp left_button (pick_surface (Vector3 3 4 0))
          (keydown ''Escape'' drag_in_tool))
       = Inr [CreateMeasurementObject (-1) (Vector3 0 0 0) (Vector3 3 4 0) 5]"
  unfolding escaped_eq
  by (simp add: drag_in_tool_eq dragging_eq new_MeasureMenuController_def left_button_def
        pick_surface_def HandlePointerUp_def pointToUse_def
        CompleteMeasurement_def SendCreateNewMeasurementRequestToServer_def SendData_def
        Vector3_Distance_def sqrt_25 Let_def)

subsection \<open>The sentinel id\<close>

text \<open>
  C7. The claim is that \<open>-1\<close> is never a key of the two maps. On a controller
  where it is not: a local create is sent with the id \<open>-1\<close> and changes neither
  map; the inbound delete and update handlers do not make \<open>-1\<close> a key; and the
  inbound create handler does not either, as long as no entry of the batch carries the
  id \<open>-1\<close>. The handler has no check for the sentinel, though: an entry that carries
  \<open>-1\<close> and decodes is stored under the key \<open>-1\<close> in both maps.
\<close>

theorem sentinel_key:
  assumes "measurementsList s (-1) = None" and "plateObjects s (-1) = None"
  shows "(startPoint_tool s = Some sp \<longrightarrow>
            (\<exists>s'. CompleteMeasurement e s = Inr s'
                \<and> SendData_calls s' =
                    SendData_calls s @
                      [CreateMeasurementObject (-1) sp e (Vector3_Distance sp e)]
                \<and> measurementsList s' = measurementsList s
                \<and> plateObjects s' = plateObjects s))
       \<and> measurementsList (ReceiveDeleteMeasurementRequestFromServer i s) (-1) = None
       \<and> plateObjects (ReceiveDeleteMeasurementRequestFromServer i s) (-1) = None
       \<and> (\<forall>s'. ReceiveUpdateMeasurementRequestFromServer u s = Inr s' \<longrightarrow>
             measurementsList s' (-1) = None \<and> plateObjects s' (-1) = None)
       \<and> ((\<forall>p q d. ObjectEntry (IdNumber (-1)) p q d \<notin> set es) \<longrightarrow>
             measurementsList (ReceiveCreateNewMeasurementRequestFromServer (ArrayOf es) s) (-1)
               = None
           \<and> plateObjects (ReceiveCreateNewMeasurementRequestFromServer (ArrayOf es) s) (-1)
               = None)
       \<and> (instance_set s \<and> decode_point p = Inr a \<and> decode_point q = Inr b \<longrightarrow>
             measurementsList
               (ReceiveCreateNewMeasurementRequestFromServer
                  (ArrayOf [ObjectEntry (IdNumber (-1)) p q d]) s) (-1) = Some (nextObject s)
           \<and> plateObjects
               (ReceiveCreateNewMeasurementRequestFromServer
                  (ArrayOf [ObjectEntry (IdNumber (-1)) p q d]) s) (-1) = Some (nextObject s))"
proof -
  have local: "startPoint_tool s = Some sp \<longrightarrow>
            (\<exists>s'. CompleteMeasurement e s = Inr s'
                \<and> SendData_calls s' =
                    SendData_calls s @
                      [CreateMeasurementObject (-1) sp e (Vector3_Distance sp e)]
                \<and> measurementsList s' = measurementsList s
                \<and> plateObjects s' = plateObjects s)"
    by (simp add: CompleteMeasurement_def SendCreateNewMeasurementRequestToServer_def
          SendData_def console_error_def Let_def)
  have del: "measurementsList (ReceiveDeleteMeasurementRequestFromServer i s) (-1) = None
       \<and> plateObjects (ReceiveDeleteMeasurementRequestFromServer i s) (-1) = None"
    using assms
    by (simp add: ReceiveDeleteMeasurementRequestFromServer_def console_warn_def
          ClearMovePreview_def on_object_def Let_def split: option.splits)
  have upd: "\<forall>s'. ReceiveUpdateMeasurementRequestFromServer u s = Inr s' \<longrightarrow>
             measurementsList s' (-1) = None \<and> plateObjects s' (-1) = None"
    using assms
    by (auto simp add: ReceiveUpdateMeasurementRequestFromServer_def console_warn_def
          on_object_def Let_def split: option.splits sum.splits)
  have batch: "(\<forall>p q d. ObjectEntry (IdNumber (-1)) p q d \<notin> set es) \<longrightarrow>
             measurementsList (ReceiveCreateNewMeasurementRequestFromServer (ArrayOf es) s) (-1)
               = None
           \<and> plateObjects (ReceiveCreateNewMeasurementRequestFromServer (ArrayOf es) s) (-1)
               = None"
    using assms forEach_other_key [of "-1" es s] by simp
  have ins: "instance_set s \<and> decode_point p = Inr a \<and> decode_point q = Inr b \<longrightarrow>
             measurementsList
               (ReceiveCreateNewMeasurementRequestFromServer
                  (ArrayOf [ObjectEntry (IdNumber (-1)) p q d]) s) (-1) = Some (nextObject s)
           \<and> plateObjects
               (ReceiveCreateNewMeasurementRequestFromServer
                  (ArrayOf [ObjectEntry (IdNumber (-1)) p q d]) s) (-1) = Some (nextObject s)"
    using assms by (simp add: TryAddMeasurementObject_def Let_def)
  from local del upd batch ins show ?thesis by blast
qed

text \<open>
  The theorem at the controller that is dragging from \<open>(0, 0, 0)\<close>: the create
  request for the drag to \<open>(3, 4, 0)\<close>, a create broadcast for the id \<open>3\<close> and one
  for the id \<open>-1\<close>.
\<close>

theorem sentinel_key_witness:
  "(\<exists>s'. CompleteMeasurement (Vector3 3 4 0) dragging = Inr s'
        \<and> SendData_calls s' =
            [CreateMeasurementObject (-1) (Vector3 0 0 0) (Vector3 3 4 0) 5]
        \<and> measurementsList s' = Map.empty \<and> plateObjects s' = Map.empty)
   \<and> measurementsList
       (ReceiveCreateNewMeasurementRequestFromServer
          (ArrayOf [ObjectEntry (IdNumber 3) (msg_startPoint msg3) (msg_endPoint msg3) 5])
          dragging) (-1) = None
   \<and> measurementsList
       (ReceiveCreateNewMeasurementRequestFromServer
          (ArrayOf [ObjectEntry (IdNumber (-1)) (msg_startPoint msg3) (msg_endPoint msg3) 5])
          dragging) (-1) = Some 0"
proof -
  have absent: "measurementsList dragging (-1) = None" "plateObjects dragging (-1) = None"
    by (simp_all add: dragging_eq new_MeasureMenuController_def)
  have pre: "startPoint_tool dragging = Some (Vector3 0 0 0)" "instance_set dragging"
    "SendData_calls dragging = []" "nextObject dragging = 0"
    "measurementsList dragging = Map.empty" "plateObjects dragging = Map.empty"
    "decode_point (msg_startPoint msg3) = Inr (Vector3 0 0 0)"
    "decode_point (msg_endPoint msg3) = Inr (Vector3 3 4 0)"
    "Vector3_Distance (Vector3 0 0 0) (Vector3 3 4 0) = 5"
    by (simp_all add: dragging_eq new_MeasureMenuController_def msg3_def component_def
          Vector3_Distance_def sqrt_25)
  from sentinel_key [OF absent, of "Vector3 0 0 0" "Vector3 3 4 0" 3 msg3
      "[ObjectEntry (IdNumber 3) (msg_startPoint msg3) (msg_endPoint msg3) 5]"
      "msg_startPoint msg3" "Vector3 0 0 0" "msg_endPoint msg3" "Vector3 3 4 0" 5] pre
  show ?thesis by simp
qed

text \<open>
  The claim as stated fails on the new controller and a create broadcast whose one
  entry carries the id \<open>-1\<close>: both maps hold the key \<open>-1\<close> afterwards.
\<close>

theorem sentinel_inserted_by_create_broadcast:
  "measurementsList
     (ReceiveCreateNewMeasurementRequestFromServer
        (ArrayOf [ObjectEntry (IdNumber (-1)) (msg_startPoint msg3) (msg_endPoint msg3) 5])
        new_MeasureMenuController) (-1) = Some 0
   \<and> plateObjects
     (ReceiveCreateNewMeasurementRequestFromServer
        (ArrayOf [ObjectEntry (IdNumber (-1)) (msg_startPoint msg3) (msg_endPoint msg3) 5])
        new_MeasureMenuController) (-1) = Some 0
   \<and> measurement_instance_id (objects
     (ReceiveCreateNewMeasurementRequestFromServer
        (ArrayOf [ObjectEntry (IdNumber (-1)) (msg_startPoint msg3) (msg_endPoint msg3) 5])
        new_MeasureMenuController) 0) = -1"
  by (simp add: msg3_def component_def new_MeasureMenuController_def
        TryAddMeasurementObject_def plate_defs Let_def)

subsection \<open>The delete shortcut during a move\<close>

text \<open>
  C8. While a point of a selected measurement is moved and one \<^verbatim>\<open>keydown\<close>
  listener is registered, which is the tool enabled once, a press of \<^verbatim>\<open>x\<close> or
  \<^verbatim>\<open>X\<close> discards the move preview, clears \<^verbatim>\<open>isMovingPoint\<close> and the selection,
  calls \<^verbatim>\<open>SendData\<close> once, with the delete request for the selected id, and keeps
  the mode. The claim adds that it restores the visuals of the measurement; it does
  not: the registry, plate objects included, is left as it was, so the visuals that
  \<^verbatim>\<open>StartMovingPoint\<close> cleared stay cleared. What a press does when more listeners
  are registered is not part of the statement (see \<open>X_press_reenabled\<close> above).
\<close>

theorem delete_shortcut_while_moving:
  assumes "isMovingPoint s" and "selectedMeasurementId s \<noteq> -1"
    and "key = ''x'' \<or> key = ''X''" and "keydownListeners s = 1"
  shows "movePreviewLine (keydown key s) = None
       \<and> movePreviewText (keydown key s) = None
       \<and> \<not> isMovingPoint (keydown key s)
       \<and> selectedPlateObject (keydown key s) = None
       \<and> selectedPointType (keydown key s) = None
       \<and> selectedMeasurementId (keydown key s) = -1
       \<and> fixedPoint (keydown key s) = None
       \<and> SendData_calls (keydown key s) =
           SendData_calls s @ [DeleteMeasurementObject (selectedMeasurementId s)]
       \<and> currentActionState (keydown key s) = currentActionState s
       \<and> registry (keydown key s) = registry s"
  using assms
  by (auto simp add: keydown_def onKeyDown_def ClearMovePreview_def DeleteMeasurement_def
        SendDeleteMeasurementRequestToServer_def SendData_def console_error_def
        registry_def Let_def)

text \<open>
  The theorem at the controller that is moving the start point of the measurement
  \<open>3\<close>, the tool enabled once.
\<close>

theorem delete_shortcut_while_moving_witness:
  "\<not> isMovingPoint (keydown ''x'' move_in_tool)
   \<and> selectedMeasurementId (keydown ''x'' move_in_tool) = -1
   \<and> SendData_calls (keydown ''x'' move_in_tool) = [DeleteMeasurementObject 3]
   \<and> currentActionState (keydown ''x'' move_in_tool) = None_state
   \<and> registry (keydown ''x'' move_in_tool) = registry move_in_tool"
  using delete_shortcut_while_moving [of move_in_tool "''x''"]
  by (simp add: move_in_tool_eq moving3_eq with_entity3_eq new_MeasureMenuController_def)

text \<open>
  The claim as stated fails on that controller: the measurement \<open>3\<close> had a line
  before the move, and after the press it is still registered and has no line, no text
  and no collider.
\<close>

theorem visuals_not_restored_by_delete_shortcut:
  "line (objects with_entity3 0) = Some \<lparr>color = None, renderingGroupId = worldSpace\<rparr>
   \<and> isMovingPoint move_in_tool \<and> selectedMeasurementId move_in_tool = 3
   \<and> keydownListeners move_in_tool = 1
   \<and> plateObjects (keydown ''x'' move_in_tool) 3 = Some 0
   \<and> line (objects (keydown ''x'' move_in_tool) 0) = None
   \<and> textMesh (objects (keydown ''x'' move_in_tool) 0) = None
   \<and> startPointCollider (objects (keydown ''x'' move_in_tool) 0) = None
   \<and> endPointCollider (objects (keydown ''x'' move_in_tool) 0) = None"
  by (simp add: keydown_def move_in_tool_eq moving3_eq with_entity3_eq
        new_MeasureMenuController_def plate_defs
        onKeyDown_def ClearMovePreview_def DeleteMeasurement_def
        SendDeleteMeasurementRequestToServer_def SendData_def Let_def)

subsection \<open>The hover highlight on a mode change\<close>

text \<open>
  C9. The claim is that entering create mode and entering delete mode both clear the
  hover highlight. \<^verbatim>\<open>SetActionState\<close> resets it only when the new mode is not
  \<^verbatim>\<open>Remove\<close>: then the line and the two colliders of the hovered measurement get
  the colour \<^verbatim>\<open>colors_default\<close> and the hovered id becomes \<open>-1\<close>. Entering
  \<^verbatim>\<open>Remove\<close> leaves the hovered id and every plate object as they were.
\<close>

theorem hover_highlight_on_mode_change:
  "(st \<noteq> Remove \<and> hoveredMeasurementId s \<noteq> -1 \<and>
    plateObjects s (hoveredMeasurementId s) = Some r \<longrightarrow>
      currentActionState (SetActionState st s) = st
    \<and> hoveredMeasurementId (SetActionState st s) = -1
    \<and> line (objects (SetActionState st s) r)
        = map_option (set_color colors_default) (line (objects s r))
    \<and> startPointCollider (objects (SetActionState st s) r)
        = map_option (set_color colors_default) (startPointCollider (objects s r))
    \<and> endPointCollider (objects (SetActionState st s) r)
        = map_option (set_color colors_default) (endPointCollider (objects s r)))
   \<and> currentActionState (SetActionState Remove s) = Remove
   \<and> hoveredMeasurementId (SetActionState Remove s) = hoveredMeasurementId s
   \<and> objects (SetActionState Remove s) = objects s"
  by (simp add: SetActionState_def SetMeasurementColor_def on_object_def Let_def)

text \<open>
  The theorem at the controller whose pointer is over the start collider of the
  measurement \<open>3\<close>, entering create mode.
\<close>

theorem hover_highlight_on_mode_change_witness:
  "currentActionState (SetActionState Add hovering3) = Add
   \<and> hoveredMeasurementId (SetActionState Add hovering3) = -1
   \<and> line (objects (SetActionState Add hovering3) 0)
       = Some \<lparr>color = Some colors_default, renderingGroupId = highlights\<rparr>"
  using hover_highlight_on_mode_change [of Add hovering3 0]
  by (simp add: hovering3_eq with_entity3_eq new_MeasureMenuController_def plate_defs)

text \<open>
  The claim as stated fails on that controller when delete mode is entered: the
  hovered id is still \<open>3\<close> and the line keeps the hover colour.
\<close>

theorem entering_delete_keeps_highlight:
  "currentActionState hovering3 = None_state
   \<and> hoveredMeasurementId hovering3 = 3
   \<and> currentActionState (ToggleDeleteMode hovering3) = Remove
   \<and> hoveredMeasurementId (ToggleDeleteMode hovering3) = 3
   \<and> line (objects (ToggleDeleteMode hovering3) 0)
       = Some \<lparr>color = Some colors_hover, renderingGroupId = highlights\<rparr>"
  by (simp add: hovering3_eq with_entity3_eq new_MeasureMenuController_def plate_defs
        ToggleDeleteMode_def SetActionState_def Let_def)

subsection \<open>Validity check of the create broadcast\<close>

text \<open>
  C10. An argument that is not an array is ignored with one error log. For an array,
  the key \<open>0\<close> of both maps is what it was, whatever the entries; an entry that is
  falsy, or whose id is missing, null, \<^verbatim>\<open>NaN\<close> or \<open>0\<close>, adds one warning and
  nothing else to what the entries before it gave; and an entry with any other id,
  \<open>-1\<close> included, is passed to \<^verbatim>\<open>TryAddMeasurementObject\<close> as it is.
\<close>

theorem create_batch_validity:
  "ReceiveCreateNewMeasurementRequestFromServer NotAnArray s =
     s\<lparr>console := console s @ [ConsoleError ''Received invalid measurement data format'']\<rparr>
   \<and> measurementsList (ReceiveCreateNewMeasurementRequestFromServer b s) 0
       = measurementsList s 0
   \<and> plateObjects (ReceiveCreateNewMeasurementRequestFromServer b s) 0 = plateObjects s 0
   \<and> ReceiveCreateNewMeasurementRequestFromServer (ArrayOf (es @ [FalsyEntry])) s =
       (ReceiveCreateNewMeasurementRequestFromServer (ArrayOf es) s)
         \<lparr>console := console (ReceiveCreateNewMeasurementRequestFromServer (ArrayOf es) s) @
            [ConsoleWarn ''Received invalid measurement data entry:'']\<rparr>
   \<and> (wid \<in> {IdMissing, IdNull, IdNaN, IdNumber 0} \<longrightarrow>
       ReceiveCreateNewMeasurementRequestFromServer (ArrayOf (es @ [ObjectEntry wid p q d])) s =
         (ReceiveCreateNewMeasurementRequestFromServer (ArrayOf es) s)
           \<lparr>console := console (ReceiveCreateNewMeasurementRequestFromServer (ArrayOf es) s) @
              [ConsoleWarn ''Received invalid measurement data entry:'']\<rparr>)
   \<and> (n \<noteq> 0 \<longrightarrow>
       ReceiveCreateNewMeasurementRequestFromServer
           (ArrayOf (es @ [ObjectEntry (IdNumber n) p q d])) s =
         TryAddMeasurementObject
           \<lparr>msg_instance_id = n, msg_startPoint = p, msg_endPoint = q,
            msg_distanceMeasured = d\<rparr>
           (ReceiveCreateNewMeasurementRequestFromServer (ArrayOf es) s))"
proof -
  have zero: "measurementsList (ReceiveCreateNewMeasurementRequestFromServer b s) 0
                = measurementsList s 0
              \<and> plateObjects (ReceiveCreateNewMeasurementRequestFromServer b s) 0
                = plateObjects s 0"
  proof (cases b)
    case NotAnArray
    then show ?thesis by (simp add: console_error_def)
  next
    case (ArrayOf xs)
    with forEach_other_key [of 0 xs s] show ?thesis by simp
  qed
  then show ?thesis
    by (auto simp add: forEach_append console_error_def console_warn_def)
qed

text \<open>
  The theorem at the new controller: an entry with the id \<open>0\<close> is rejected with a
  warning, an entry with the id \<open>-1\<close> is passed on.
\<close>

theorem create_batch_validity_witness:
  "console (ReceiveCreateNewMeasurementRequestFromServer
       (ArrayOf [ObjectEntry (IdNumber 0) (msg_startPoint msg3) (msg_endPoint msg3) 5])
       new_MeasureMenuController)
     = [ConsoleWarn ''Received invalid measurement data entry:'']
   \<and> measurementsList (ReceiveCreateNewMeasurementRequestFromServer
       (ArrayOf [ObjectEntry (IdNumber 0) (msg_startPoint msg3) (msg_endPoint msg3) 5])
       new_MeasureMenuController) = Map.empty
   \<and> ReceiveCreateNewMeasurementRequestFromServer
       (ArrayOf [ObjectEntry (IdNumber (-1)) (msg_startPoint msg3) (msg_endPoint msg3) 5])
       new_MeasureMenuController
     = TryAddMeasurementObject (msg3\<lparr>msg_instance_id := -1\<rparr>) new_MeasureMenuController"
  using create_batch_validity [of new_MeasureMenuController "ArrayOf []" "[]"
      "IdNumber 0" "msg_startPoint msg3" "msg_endPoint msg3" 5 "-1"]
  by (simp add: msg3_def new_MeasureMenuController_def)

end
